theory Spec2Isabelle
  imports Complex_Main
begin

section \<open>Data model\<close>

text \<open>
  The simulator of \<^verbatim>\<open>main.cpp\<close> computes with C++ \<^verbatim>\<open>double\<close> and \<^verbatim>\<open>int\<close>.
  Doubles are modelled as the reals they approximate (no rounding, no overflow), ints
  as unbounded integers (the tick counter never leaves 1..9999).  Where the source would
  read a vector out of range (undefined behaviour) or produce a non-finite double
  (division by zero, logarithm of a non-positive number, square root of a negative
  number), the model returns \<open>None\<close>.
\<close>

text \<open>\<^verbatim>\<open>struct Trade\<close>; the field \<^verbatim>\<open>open\<close> is named \<open>open_flag\<close> here.\<close>

record trade =
  strategyType :: int
  entryTick :: int
  exitTick :: int
  entryPrice :: real
  exitPrice :: real
  strike1 :: real
  strike2 :: real
  strike3 :: real
  volume :: int
  payoff :: real
  open_flag :: bool

section \<open>Option payoff functions\<close>

definition straddlePayoff :: "real \<Rightarrow> real \<Rightarrow> real" where
  "straddlePayoff S K =
     (let call = max (S - K) 0;
          put = max (K - S) 0
      in call + put)"

definition stranglePayoff :: "real \<Rightarrow> real \<Rightarrow> real \<Rightarrow> real" where
  "stranglePayoff S K1 K2 =
     (let put = max (K1 - S) 0;
          call = max (S - K2) 0
      in put + call)"

definition bullSpreadPayoff :: "real \<Rightarrow> real \<Rightarrow> real \<Rightarrow> real" where
  "bullSpreadPayoff S K1 K2 =
     (let longCall = max (S - K1) 0;
          shortCall = max (S - K2) 0
      in longCall - shortCall)"

definition bearSpreadPayoff :: "real \<Rightarrow> real \<Rightarrow> real \<Rightarrow> real" where
  "bearSpreadPayoff S K1 K2 =
     (let longPut = max (K1 - S) 0;
          shortPut = max (S - K2) 0
      in longPut - shortPut)"

definition butterflySpreadPayoff :: "real \<Rightarrow> real \<Rightarrow> real \<Rightarrow> real \<Rightarrow> real" where
  "butterflySpreadPayoff S K1 K2 K3 =
     (let longCall1 = max (S - K1) 0;
          shortCalls = 2 * max (S - K2) 0;
          longCall2 = max (S - K3) 0
      in longCall1 - shortCalls + longCall2)"

section \<open>Indicator functions\<close>

text \<open>\<^verbatim>\<open>prices[i]\<close> on a \<^verbatim>\<open>vector<double>\<close>: no result outside the vector.\<close>

definition at_index :: "real list \<Rightarrow> int \<Rightarrow> real option" where
  "at_index xs i = (if 0 \<le> i \<and> i < int (length xs) then Some (xs ! nat i) else None)"

text \<open>Division, logarithm and square root of doubles, where the result is a finite real.\<close>

definition fdiv :: "real \<Rightarrow> real \<Rightarrow> real option" where
  "fdiv a b = (if b = 0 then None else Some (a / b))"

definition flog :: "real \<Rightarrow> real option" where
  "flog x = (if x \<le> 0 then None else Some (ln x))"

definition fsqrt :: "real \<Rightarrow> real option" where
  "fsqrt x = (if x < 0 then None else Some (sqrt x))"

text \<open>The summation loop of \<^verbatim>\<open>computeMA\<close>, from index \<open>i\<close> up to \<open>currentTick\<close>.\<close>

function ma_sum :: "real list \<Rightarrow> int \<Rightarrow> int \<Rightarrow> real \<Rightarrow> real option" where
  "ma_sum prices i currentTick acc =
     (if i \<le> currentTick then
        (case at_index prices i of
           None \<Rightarrow> None
         | Some p \<Rightarrow> ma_sum prices (i + 1) currentTick (acc + p))
      else Some acc)"
  by pat_completeness auto
termination
  by (relation "measure (\<lambda>(prices, i, currentTick, acc). nat (currentTick + 1 - i))") auto

definition computeMA :: "real list \<Rightarrow> int \<Rightarrow> int \<Rightarrow> real option" where
  "computeMA prices currentTick window =
     (if currentTick < window - 1 then at_index prices currentTick
      else case ma_sum prices (currentTick - window + 1) currentTick 0 of
             None \<Rightarrow> None
           | Some s \<Rightarrow> fdiv s (of_int window))"

text \<open>The loop of \<^verbatim>\<open>computeVolatility\<close> that fills the vector \<^verbatim>\<open>returns\<close>.\<close>

function collect_returns :: "real list \<Rightarrow> int \<Rightarrow> int \<Rightarrow> real list \<Rightarrow> real list option" where
  "collect_returns prices i currentTick returns =
     (if i \<le> currentTick then
        (if i = 0 then collect_returns prices (i + 1) currentTick returns
         else
           (case at_index prices i of
              None \<Rightarrow> None
            | Some a \<Rightarrow>
                (case at_index prices (i - 1) of
                   None \<Rightarrow> None
                 | Some b \<Rightarrow>
                     (case fdiv a b of
                        None \<Rightarrow> None
                      | Some q \<Rightarrow>
                          (case flog q of
                             None \<Rightarrow> None
                           | Some r \<Rightarrow> collect_returns prices (i + 1) currentTick (returns @ [r]))))))
      else Some returns)"
  by pat_completeness auto
termination
  by (relation "measure (\<lambda>(prices, i, currentTick, returns). nat (currentTick + 1 - i))") auto

text \<open>
  \<^verbatim>\<open>computeVolatility\<close>.  The variance is a sum of squares over a positive count, so the
  final square root is always taken of a non-negative number.
\<close>

definition computeVolatility :: "real list \<Rightarrow> int \<Rightarrow> int \<Rightarrow> real option" where
  "computeVolatility prices currentTick window =
     (if currentTick < window then Some 0
      else case collect_returns prices (currentTick - window + 1) currentTick [] of
             None \<Rightarrow> None
           | Some returns \<Rightarrow>
               (case fdiv (foldl (\<lambda>m r. m + r) 0 returns) (real (length returns)) of
                  None \<Rightarrow> None
                | Some mean \<Rightarrow>
                    (case fdiv (foldl (\<lambda>v r. v + (r - mean) * (r - mean)) 0 returns)
                            (real (length returns)) of
                       None \<Rightarrow> None
                     | Some variance \<Rightarrow> Some (sqrt variance))))"

section \<open>The simulation\<close>

text \<open>
  The constants at the head of \<^verbatim>\<open>main\<close>, as a record, so that a run can be stated for
  other values of drift and volatility as well.  The trade volume 10 is a literal in the
  trade blocks and stays one here.
\<close>

record config =
  totalTicks :: int
  S0 :: real
  mu :: real
  sigma :: real
  dt :: real
  holdPeriod :: int
  delta :: real
  shortWindow :: int
  longWindow :: int
  volWindow :: int
  volThresholdHigh :: real
  volThresholdLow :: real
  volThresholdHighStrangle :: real
  volThresholdLowStrangle :: real

text \<open>The values \<^verbatim>\<open>main\<close> declares.\<close>

definition main_config :: config where
  "main_config =
     \<lparr>totalTicks = 10000, S0 = 100, mu = 0.0001, sigma = 0.01, dt = 1, holdPeriod = 10,
      delta = 0.05, shortWindow = 5, longWindow = 20, volWindow = 5,
      volThresholdHigh = 0.01, volThresholdLow = 0.005,
      volThresholdHighStrangle = 0.012, volThresholdLowStrangle = 0.007\<rparr>"

text \<open>
  The state of the loop: the price vector and the two arrays, indexed 1 to 5 by strategy
  (1 Straddle, 2 Strangle, 3 Bull Spread, 4 Bear Spread, 5 Butterfly Spread).
\<close>

record sim_state =
  prices :: "real list"
  activeTrades :: "nat \<Rightarrow> trade"
  cumulativePnL :: "nat \<Rightarrow> real"

text \<open>The five alpha signals of one tick: +1 enter, -1 exit, 0 neither.\<close>

record signals =
  alphaStraddle :: int
  alphaStrangle :: int
  alphaBull :: int
  alphaBear :: int
  alphaButterfly :: int

text \<open>
  One step of geometric Brownian motion with the normal draw \<open>Z\<close>, in exact arithmetic.
  The same step within the range of a double is \<open>gbm_next_double\<close> below.
\<close>

definition gbm_next :: "config \<Rightarrow> real \<Rightarrow> real \<Rightarrow> real option" where
  "gbm_next cfg S_prev Z =
     (case fsqrt (dt cfg) of
        None \<Rightarrow> None
      | Some root_dt \<Rightarrow>
          Some (S_prev * exp ((mu cfg - 0.5 * sigma cfg * sigma cfg) * dt cfg
                              + sigma cfg * root_dt * Z)))"

definition generate_signals :: "config \<Rightarrow> real \<Rightarrow> real \<Rightarrow> real \<Rightarrow> signals" where
  "generate_signals cfg shortMA longMA volatility =
     \<lparr>alphaStraddle =
        (if volatility > volThresholdHigh cfg then 1
         else if volatility < volThresholdLow cfg then - 1 else 0),
      alphaStrangle =
        (if volatility > volThresholdHighStrangle cfg then 1
         else if volatility < volThresholdLowStrangle cfg then - 1 else 0),
      alphaBull = (if shortMA > longMA then 1 else - 1),
      alphaBear = (if shortMA < longMA then 1 else - 1),
      alphaButterfly = (if volatility < volThresholdLow cfg then 1 else - 1)\<rparr>"

text \<open>The indicators of tick \<open>t\<close> on the updated price vector, and the signals from them.\<close>

definition compute_signals :: "config \<Rightarrow> real list \<Rightarrow> int \<Rightarrow> signals option" where
  "compute_signals cfg ps t =
     (case computeMA ps t (shortWindow cfg) of
        None \<Rightarrow> None
      | Some shortMA \<Rightarrow>
          (case computeMA ps t (longWindow cfg) of
             None \<Rightarrow> None
           | Some longMA \<Rightarrow>
               (case computeVolatility ps t (volWindow cfg) of
                  None \<Rightarrow> None
                | Some volatility \<Rightarrow> Some (generate_signals cfg shortMA longMA volatility))))"

text \<open>The five trade blocks of the loop body, in the order of the source.\<close>

definition straddle_block :: "int \<Rightarrow> real \<Rightarrow> int \<Rightarrow> real \<Rightarrow> int \<Rightarrow> sim_state \<Rightarrow> sim_state" where
  "straddle_block holdP dlt t S_new alpha st =
     (let tr = activeTrades st 1 in
      if \<not> open_flag tr \<and> alpha = 1 then
        st\<lparr>activeTrades := (activeTrades st)(1 :=
             tr\<lparr>open_flag := True, strategyType := 1, entryTick := t, entryPrice := S_new,
                strike1 := S_new, volume := 10\<rparr>)\<rparr>
      else if open_flag tr then
        (if t - entryTick tr \<ge> holdP \<or> alpha = - 1 then
           (let tr1 = tr\<lparr>exitTick := t, exitPrice := S_new\<rparr>;
                pay = straddlePayoff S_new (strike1 tr1);
                tr2 = tr1\<lparr>payoff := pay * of_int (volume tr1)\<rparr>
            in st\<lparr>cumulativePnL := (cumulativePnL st)(1 := cumulativePnL st 1 + payoff tr2),
                  activeTrades := (activeTrades st)(1 := tr2\<lparr>open_flag := False\<rparr>)\<rparr>)
         else st)
      else st)"

definition strangle_block :: "int \<Rightarrow> real \<Rightarrow> int \<Rightarrow> real \<Rightarrow> int \<Rightarrow> sim_state \<Rightarrow> sim_state" where
  "strangle_block holdP dlt t S_new alpha st =
     (let tr = activeTrades st 2 in
      if \<not> open_flag tr \<and> alpha = 1 then
        st\<lparr>activeTrades := (activeTrades st)(2 :=
             tr\<lparr>open_flag := True, strategyType := 2, entryTick := t, entryPrice := S_new,
                strike1 := S_new * (1 - dlt), strike2 := S_new * (1 + dlt), volume := 10\<rparr>)\<rparr>
      else if open_flag tr then
        (if t - entryTick tr \<ge> holdP \<or> alpha = - 1 then
           (let tr1 = tr\<lparr>exitTick := t, exitPrice := S_new\<rparr>;
                pay = stranglePayoff S_new (strike1 tr1) (strike2 tr1);
                tr2 = tr1\<lparr>payoff := pay * of_int (volume tr1)\<rparr>
            in st\<lparr>cumulativePnL := (cumulativePnL st)(2 := cumulativePnL st 2 + payoff tr2),
                  activeTrades := (activeTrades st)(2 := tr2\<lparr>open_flag := False\<rparr>)\<rparr>)
         else st)
      else st)"

definition bull_block :: "int \<Rightarrow> real \<Rightarrow> int \<Rightarrow> real \<Rightarrow> int \<Rightarrow> sim_state \<Rightarrow> sim_state" where
  "bull_block holdP dlt t S_new alpha st =
     (let tr = activeTrades st 3 in
      if \<not> open_flag tr \<and> alpha = 1 then
        st\<lparr>activeTrades := (activeTrades st)(3 :=
             tr\<lparr>open_flag := True, strategyType := 3, entryTick := t, entryPrice := S_new,
                strike1 := S_new * (1 - dlt), strike2 := S_new * (1 + dlt), volume := 10\<rparr>)\<rparr>
      else if open_flag tr then
        (if t - entryTick tr \<ge> holdP \<or> alpha = - 1 then
           (let tr1 = tr\<lparr>exitTick := t, exitPrice := S_new\<rparr>;
                pay = bullSpreadPayoff S_new (strike1 tr1) (strike2 tr1);
                tr2 = tr1\<lparr>payoff := pay * of_int (volume tr1)\<rparr>
            in st\<lparr>cumulativePnL := (cumulativePnL st)(3 := cumulativePnL st 3 + payoff tr2),
                  activeTrades := (activeTrades st)(3 := tr2\<lparr>open_flag := False\<rparr>)\<rparr>)
         else st)
      else st)"

definition bear_block :: "int \<Rightarrow> real \<Rightarrow> int \<Rightarrow> real \<Rightarrow> int \<Rightarrow> sim_state \<Rightarrow> sim_state" where
  "bear_block holdP dlt t S_new alpha st =
     (let tr = activeTrades st 4 in
      if \<not> open_flag tr \<and> alpha = 1 then
        st\<lparr>activeTrades := (activeTrades st)(4 :=
             tr\<lparr>open_flag := True, strategyType := 4, entryTick := t, entryPrice := S_new,
                strike1 := S_new * (1 + dlt), strike2 := S_new * (1 - dlt), volume := 10\<rparr>)\<rparr>
      else if open_flag tr then
        (if t - entryTick tr \<ge> holdP \<or> alpha = - 1 then
           (let tr1 = tr\<lparr>exitTick := t, exitPrice := S_new\<rparr>;
                pay = bearSpreadPayoff S_new (strike1 tr1) (strike2 tr1);
                tr2 = tr1\<lparr>payoff := pay * of_int (volume tr1)\<rparr>
            in st\<lparr>cumulativePnL := (cumulativePnL st)(4 := cumulativePnL st 4 + payoff tr2),
                  activeTrades := (activeTrades st)(4 := tr2\<lparr>open_flag := False\<rparr>)\<rparr>)
         else st)
      else st)"

definition butterfly_block :: "int \<Rightarrow> real \<Rightarrow> int \<Rightarrow> real \<Rightarrow> int \<Rightarrow> sim_state \<Rightarrow> sim_state" where
  "butterfly_block holdP dlt t S_new alpha st =
     (let tr = activeTrades st 5 in
      if \<not> open_flag tr \<and> alpha = 1 then
        st\<lparr>activeTrades := (activeTrades st)(5 :=
             tr\<lparr>open_flag := True, strategyType := 5, entryTick := t, entryPrice := S_new,
                strike1 := S_new * (1 - dlt), strike2 := S_new,
                strike3 := S_new * (1 + dlt), volume := 10\<rparr>)\<rparr>
      else if open_flag tr then
        (if t - entryTick tr \<ge> holdP \<or> alpha = - 1 then
           (let tr1 = tr\<lparr>exitTick := t, exitPrice := S_new\<rparr>;
                pay = butterflySpreadPayoff S_new (strike1 tr1) (strike2 tr1) (strike3 tr1);
                tr2 = tr1\<lparr>payoff := pay * of_int (volume tr1)\<rparr>
            in st\<lparr>cumulativePnL := (cumulativePnL st)(5 := cumulativePnL st 5 + payoff tr2),
                  activeTrades := (activeTrades st)(5 := tr2\<lparr>open_flag := False\<rparr>)\<rparr>)
         else st)
      else st)"

definition execute_trades :: "config \<Rightarrow> int \<Rightarrow> real \<Rightarrow> signals \<Rightarrow> sim_state \<Rightarrow> sim_state" where
  "execute_trades cfg t S_new sg st =
     (let st1 = straddle_block (holdPeriod cfg) (delta cfg) t S_new (alphaStraddle sg) st;
          st2 = strangle_block (holdPeriod cfg) (delta cfg) t S_new (alphaStrangle sg) st1;
          st3 = bull_block (holdPeriod cfg) (delta cfg) t S_new (alphaBull sg) st2;
          st4 = bear_block (holdPeriod cfg) (delta cfg) t S_new (alphaBear sg) st3
      in butterfly_block (holdPeriod cfg) (delta cfg) t S_new (alphaButterfly sg) st4)"

text \<open>
  The body of the main loop at tick \<open>t\<close> with the draw \<open>Z\<close>.  \<^verbatim>\<open>prices.back()\<close> has no
  result on an empty vector.
\<close>

definition tick :: "config \<Rightarrow> real \<Rightarrow> int \<Rightarrow> sim_state \<Rightarrow> sim_state option" where
  "tick cfg Z t st =
     (if prices st = [] then None
      else
        (let S_prev = last (prices st) in
         case gbm_next cfg S_prev Z of
           None \<Rightarrow> None
         | Some S_new \<Rightarrow>
             (let ps = prices st @ [S_new] in
              case compute_signals cfg ps t of
                None \<Rightarrow> None
              | Some sg \<Rightarrow> Some (execute_trades cfg t S_new sg (st\<lparr>prices := ps\<rparr>)))))"

text \<open>
  The state before the loop.  \<open>mem\<close> is the content of the array \<^verbatim>\<open>activeTrades\<close> as
  declared, which the source does not initialise; only the flag \<^verbatim>\<open>open\<close> is set (the
  source sets it at the indices 1 to 5 and never reads index 0).
\<close>

definition init_state :: "config \<Rightarrow> (nat \<Rightarrow> trade) \<Rightarrow> sim_state" where
  "init_state cfg mem =
     \<lparr>prices = [S0 cfg],
      activeTrades = (\<lambda>i. (mem i)\<lparr>open_flag := False\<rparr>),
      cumulativePnL = (\<lambda>i. 0)\<rparr>"

text \<open>
  The main loop \<^verbatim>\<open>for (int t = 1; t < totalTicks; t++)\<close>.  The random source is the stream
  \<open>Z\<close> of draws; tick \<open>t\<close> consumes \<open>Z t\<close>.
\<close>

function main_loop :: "config \<Rightarrow> (nat \<Rightarrow> real) \<Rightarrow> int \<Rightarrow> sim_state \<Rightarrow> sim_state option" where
  "main_loop cfg Z t st =
     (if t < totalTicks cfg then
        (case tick cfg (Z (nat t)) t st of
           None \<Rightarrow> None
         | Some st' \<Rightarrow> main_loop cfg Z (t + 1) st')
      else Some st)"
  by pat_completeness auto
termination
  by (relation "measure (\<lambda>(cfg, Z, t, st). nat (totalTicks cfg - t))") auto

definition main_sim :: "config \<Rightarrow> (nat \<Rightarrow> trade) \<Rightarrow> (nat \<Rightarrow> real) \<Rightarrow> sim_state option" where
  "main_sim cfg mem Z = main_loop cfg Z 1 (init_state cfg mem)"

text \<open>The final report adds the five totals in index order.\<close>

definition totalPnL :: "sim_state \<Rightarrow> real" where
  "totalPnL st = foldl (\<lambda>acc i. acc + cumulativePnL st i) 0 [1, 2, 3, 4, 5]"

text \<open>The state after \<open>k\<close> iterations of the loop (after tick \<open>k\<close>).\<close>

primrec state_at :: "config \<Rightarrow> (nat \<Rightarrow> trade) \<Rightarrow> (nat \<Rightarrow> real) \<Rightarrow> nat \<Rightarrow> sim_state option" where
  "state_at cfg mem Z 0 = Some (init_state cfg mem)"
| "state_at cfg mem Z (Suc k) =
     (case state_at cfg mem Z k of
        None \<Rightarrow> None
      | Some st \<Rightarrow> tick cfg (Z (Suc k)) (int (Suc k)) st)"

section \<open>The price step within the range of a double\<close>










section \<open>The statistics the specification names\<close>

text \<open>The \<open>n\<close> most recent entries of a history ending at index \<open>t\<close> inclusive.\<close>

definition recent :: "real list \<Rightarrow> int \<Rightarrow> int \<Rightarrow> real list" where
  "recent ps t n = take (nat n) (drop (nat (t + 1 - n)) ps)"

definition arithmetic_mean :: "real list \<Rightarrow> real" where
  "arithmetic_mean xs = sum_list xs / real (length xs)"

text \<open>Population standard deviation: the divisor is the number of values.\<close>

definition population_stddev :: "real list \<Rightarrow> real" where
  "population_stddev xs =
     sqrt (sum_list (map (\<lambda>x. (x - arithmetic_mean xs) * (x - arithmetic_mean xs)) xs)
           / real (length xs))"

text \<open>The log-returns \<open>ln (p\<^sub>i / p\<^sub>i\<^sub>-\<^sub>1)\<close> between consecutive entries of a list of prices.\<close>

definition log_returns :: "real list \<Rightarrow> real list" where
  "log_returns ps = map (\<lambda>i. ln (ps ! Suc i / ps ! i)) [0 ..< length ps - 1]"

section \<open>The five strategies as one state machine\<close>

text \<open>
  The specification describes the five trade blocks as one lifecycle step with a strike
  rule and a payoff function per strategy.  The definitions below write that description
  down; the blocks of the source are compared with it.
\<close>

datatype strategy = Straddle | Strangle | BullSpread | BearSpread | ButterflySpread

text \<open>The array index of a strategy.\<close>

fun slot :: "strategy \<Rightarrow> nat" where
  "slot Straddle = 1"
| "slot Strangle = 2"
| "slot BullSpread = 3"
| "slot BearSpread = 4"
| "slot ButterflySpread = 5"

fun signal_of :: "strategy \<Rightarrow> signals \<Rightarrow> int" where
  "signal_of Straddle sg = alphaStraddle sg"
| "signal_of Strangle sg = alphaStrangle sg"
| "signal_of BullSpread sg = alphaBull sg"
| "signal_of BearSpread sg = alphaBear sg"
| "signal_of ButterflySpread sg = alphaButterfly sg"

text \<open>The strike assignment at entry from the entry price \<open>S\<close> and the offset \<open>d\<close>.\<close>

fun entry_strikes :: "strategy \<Rightarrow> real \<Rightarrow> real \<Rightarrow> real list" where
  "entry_strikes Straddle S d = [S]"
| "entry_strikes Strangle S d = [S * (1 - d), S * (1 + d)]"
| "entry_strikes BullSpread S d = [S * (1 - d), S * (1 + d)]"
| "entry_strikes BearSpread S d = [S * (1 + d), S * (1 - d)]"
| "entry_strikes ButterflySpread S d = [S * (1 - d), S, S * (1 + d)]"

text \<open>The strikes a trade of the strategy records: one, two or three.\<close>

fun recorded_strikes :: "strategy \<Rightarrow> trade \<Rightarrow> real list" where
  "recorded_strikes Straddle tr = [strike1 tr]"
| "recorded_strikes Strangle tr = [strike1 tr, strike2 tr]"
| "recorded_strikes BullSpread tr = [strike1 tr, strike2 tr]"
| "recorded_strikes BearSpread tr = [strike1 tr, strike2 tr]"
| "recorded_strikes ButterflySpread tr = [strike1 tr, strike2 tr, strike3 tr]"

fun strategy_payoff :: "strategy \<Rightarrow> real \<Rightarrow> trade \<Rightarrow> real" where
  "strategy_payoff Straddle S tr = straddlePayoff S (strike1 tr)"
| "strategy_payoff Strangle S tr = stranglePayoff S (strike1 tr) (strike2 tr)"
| "strategy_payoff BullSpread S tr = bullSpreadPayoff S (strike1 tr) (strike2 tr)"
| "strategy_payoff BearSpread S tr = bearSpreadPayoff S (strike1 tr) (strike2 tr)"
| "strategy_payoff ButterflySpread S tr =
     butterflySpreadPayoff S (strike1 tr) (strike2 tr) (strike3 tr)"

fun enter_trade :: "strategy \<Rightarrow> real \<Rightarrow> int \<Rightarrow> real \<Rightarrow> trade \<Rightarrow> trade" where
  "enter_trade Straddle d t S tr =
     tr\<lparr>open_flag := True, strategyType := 1, entryTick := t, entryPrice := S,
        strike1 := S, volume := 10\<rparr>"
| "enter_trade Strangle d t S tr =
     tr\<lparr>open_flag := True, strategyType := 2, entryTick := t, entryPrice := S,
        strike1 := S * (1 - d), strike2 := S * (1 + d), volume := 10\<rparr>"
| "enter_trade BullSpread d t S tr =
     tr\<lparr>open_flag := True, strategyType := 3, entryTick := t, entryPrice := S,
        strike1 := S * (1 - d), strike2 := S * (1 + d), volume := 10\<rparr>"
| "enter_trade BearSpread d t S tr =
     tr\<lparr>open_flag := True, strategyType := 4, entryTick := t, entryPrice := S,
        strike1 := S * (1 + d), strike2 := S * (1 - d), volume := 10\<rparr>"
| "enter_trade ButterflySpread d t S tr =
     tr\<lparr>open_flag := True, strategyType := 5, entryTick := t, entryPrice := S,
        strike1 := S * (1 - d), strike2 := S, strike3 := S * (1 + d), volume := 10\<rparr>"

definition close_trade :: "strategy \<Rightarrow> int \<Rightarrow> real \<Rightarrow> trade \<Rightarrow> trade" where
  "close_trade s t S tr =
     tr\<lparr>exitTick := t, exitPrice := S,
        payoff := strategy_payoff s S tr * of_int (volume tr), open_flag := False\<rparr>"

text \<open>The lifecycle step on one slot and its running total, in the order of the specification.\<close>

definition slot_step ::
  "strategy \<Rightarrow> int \<Rightarrow> real \<Rightarrow> int \<Rightarrow> real \<Rightarrow> int \<Rightarrow> trade \<times> real \<Rightarrow> trade \<times> real" where
  "slot_step s holdP d t S alpha x =
     (let tr = fst x; pnl = snd x in
      if \<not> open_flag tr \<and> alpha = 1 then (enter_trade s d t S tr, pnl)
      else if open_flag tr \<and> (t - entryTick tr \<ge> holdP \<or> alpha = - 1)
        then (close_trade s t S tr, pnl + strategy_payoff s S tr * of_int (volume tr))
      else (tr, pnl))"

section \<open>Opens and closes of a run\<close>

text \<open>
  The branch a trade block takes at a tick, read off the state before the tick and the
  signals of the tick: the entry branch, or the closing branch.
\<close>

definition entry_fires :: "config \<Rightarrow> strategy \<Rightarrow> int \<Rightarrow> sim_state \<Rightarrow> sim_state \<Rightarrow> bool" where
  "entry_fires cfg s t st st' =
     (case compute_signals cfg (prices st') t of
        None \<Rightarrow> False
      | Some sg \<Rightarrow> \<not> open_flag (activeTrades st (slot s)) \<and> signal_of s sg = 1)"

definition close_fires :: "config \<Rightarrow> strategy \<Rightarrow> int \<Rightarrow> sim_state \<Rightarrow> sim_state \<Rightarrow> bool" where
  "close_fires cfg s t st st' =
     (case compute_signals cfg (prices st') t of
        None \<Rightarrow> False
      | Some sg \<Rightarrow>
          open_flag (activeTrades st (slot s))
          \<and> (t - entryTick (activeTrades st (slot s)) \<ge> holdPeriod cfg \<or> signal_of s sg = - 1))"

text \<open>Whether tick \<open>k\<close> of a run opened, or closed, a trade of strategy \<open>s\<close>.\<close>

definition opened_at ::
  "config \<Rightarrow> (nat \<Rightarrow> trade) \<Rightarrow> (nat \<Rightarrow> real) \<Rightarrow> strategy \<Rightarrow> nat \<Rightarrow> bool" where
  "opened_at cfg mem Z s k =
     (case state_at cfg mem Z (k - 1) of
        None \<Rightarrow> False
      | Some st \<Rightarrow>
          (case state_at cfg mem Z k of
             None \<Rightarrow> False
           | Some st' \<Rightarrow> entry_fires cfg s (int k) st st'))"

definition closed_at ::
  "config \<Rightarrow> (nat \<Rightarrow> trade) \<Rightarrow> (nat \<Rightarrow> real) \<Rightarrow> strategy \<Rightarrow> nat \<Rightarrow> bool" where
  "closed_at cfg mem Z s k =
     (case state_at cfg mem Z (k - 1) of
        None \<Rightarrow> False
      | Some st \<Rightarrow>
          (case state_at cfg mem Z k of
             None \<Rightarrow> False
           | Some st' \<Rightarrow> close_fires cfg s (int k) st st'))"

text \<open>The number of opens and of closes of strategy \<open>s\<close> in ticks 1 to \<open>n\<close>.\<close>

definition num_opens ::
  "config \<Rightarrow> (nat \<Rightarrow> trade) \<Rightarrow> (nat \<Rightarrow> real) \<Rightarrow> strategy \<Rightarrow> nat \<Rightarrow> nat" where
  "num_opens cfg mem Z s n = length (filter (opened_at cfg mem Z s) [1 ..< Suc n])"

definition num_closes ::
  "config \<Rightarrow> (nat \<Rightarrow> trade) \<Rightarrow> (nat \<Rightarrow> real) \<Rightarrow> strategy \<Rightarrow> nat \<Rightarrow> nat" where
  "num_closes cfg mem Z s n = length (filter (closed_at cfg mem Z s) [1 ..< Suc n])"

text \<open>1 for an open slot, 0 for a flat one.\<close>

definition open_count :: "sim_state \<Rightarrow> strategy \<Rightarrow> nat" where
  "open_count st s = (if open_flag (activeTrades st (slot s)) then 1 else 0)"

section \<open>Configurations and inputs\<close>

text \<open>
  The configurations the specification calls valid, by its sections 6 and 7: initial
  price, time step and windows positive, volatility not negative, at least one tick,
  holding period at least 1, offset strictly between 0 and 1.  The source checks none of
  these.
\<close>

definition valid_config :: "config \<Rightarrow> bool" where
  "valid_config cfg \<longleftrightarrow>
     0 < S0 cfg \<and> 0 \<le> sigma cfg \<and> 0 < dt cfg \<and> 1 \<le> totalTicks cfg \<and> 1 \<le> holdPeriod cfg
     \<and> 0 < delta cfg \<and> delta cfg < 1
     \<and> 1 \<le> shortWindow cfg \<and> 1 \<le> longWindow cfg \<and> 1 \<le> volWindow cfg"

text \<open>\<^verbatim>\<open>main\<close>'s configuration with drift 0 and volatility 0.\<close>

definition zero_config :: config where
  "zero_config = main_config\<lparr>mu := 0, sigma := 0\<rparr>"


text \<open>
  \<^verbatim>\<open>main\<close>'s configuration with the Straddle thresholds the other way round: the high
  threshold 0.005 below the low threshold 0.01.
\<close>

definition crossed_config :: config where
  "crossed_config = main_config\<lparr>volThresholdHigh := 0.005, volThresholdLow := 0.01\<rparr>"

text \<open>Concrete inputs for the examples: a trade record of zeros.\<close>

definition zero_trade :: trade where
  "zero_trade =
     \<lparr>strategyType = 0, entryTick = 0, exitTick = 0, entryPrice = 0, exitPrice = 0,
      strike1 = 0, strike2 = 0, strike3 = 0, volume = 0, payoff = 0, open_flag = False\<rparr>"

text \<open>Zeros in the uninitialised array, and the draws that are all 0.\<close>

definition zero_mem :: "nat \<Rightarrow> trade" where
  "zero_mem i = zero_trade"

definition zero_draws :: "nat \<Rightarrow> real" where
  "zero_draws k = 0"

text \<open>The draw under which the price step of \<^verbatim>\<open>main\<close> multiplies the price by \<open>r\<close>.\<close>

definition draw_for :: "real \<Rightarrow> real" where
  "draw_for r = (ln r - 0.00005) / 0.01"

text \<open>
  A stream of draws for \<^verbatim>\<open>main\<close>'s configuration under which the price goes
  100, 102, 102, 102, 101.7, 101.8 and stays there.
\<close>

definition bear_draws :: "nat \<Rightarrow> real" where
  "bear_draws k =
     draw_for (if k = 1 then 51 / 50 else if k = 4 then 339 / 340
               else if k = 5 then 1018 / 1017 else 1)"

text \<open>A state with an open straddle struck at 90, before tick 1.\<close>

definition demo_state :: sim_state where
  "demo_state =
     \<lparr>prices = [100],
      activeTrades = (\<lambda>i. zero_trade\<lparr>open_flag := (i = 1), strike1 := 90, volume := 10\<rparr>),
      cumulativePnL = (\<lambda>i. 0)\<rparr>"

text \<open>Four ticks at 100 with every slot flat.\<close>

definition demo_state4 :: sim_state where
  "demo_state4 =
     \<lparr>prices = [100, 100, 100, 100], activeTrades = (\<lambda>i. zero_trade),
      cumulativePnL = (\<lambda>i. 0)\<rparr>"

text \<open>
  The state after tick \<open>k\<close> of a run of \<open>zero_config\<close>: a constant path, slots 1 to 4 flat
  with total 0, and the butterfly slot in a cycle of 11 ticks that pays 50 at each close.
\<close>

definition zero_inv :: "nat \<Rightarrow> sim_state \<Rightarrow> bool" where
  "zero_inv k st \<longleftrightarrow>
     prices st = replicate (Suc k) 100
     \<and> (\<forall>s. s \<noteq> ButterflySpread \<longrightarrow>
           \<not> open_flag (activeTrades st (slot s)) \<and> cumulativePnL st (slot s) = 0)
     \<and> (open_flag (activeTrades st 5) \<longleftrightarrow> k mod 11 \<noteq> 0)
     \<and> (open_flag (activeTrades st 5) \<longrightarrow>
           entryTick (activeTrades st 5) = int k - int (k mod 11) + 1
           \<and> strike1 (activeTrades st 5) = 95 \<and> strike2 (activeTrades st 5) = 100
           \<and> strike3 (activeTrades st 5) = 105 \<and> volume (activeTrades st 5) = 10)
     \<and> cumulativePnL st 5 = 50 * real (k div 11)"

section \<open>Payoff library\<close>

text \<open>
  C6.  The five payoff functions are the intrinsic-value formulas
  straddle(S,K) = max(S-K,0) + max(K-S,0), strangle(S,K1,K2) = max(K1-S,0) + max(S-K2,0),
  bullSpread(S,K1,K2) = max(S-K1,0) - max(S-K2,0),
  bearSpread(S,K1,K2) = max(K1-S,0) - max(S-K2,0),
  butterflySpread(S,K1,K2,K3) = max(S-K1,0) - 2 max(S-K2,0) + max(S-K3,0),
  for all real arguments; and straddle(100,100) = 0, straddle(150,100) = 50,
  straddle(50,100) = 50, bullSpread(120,90,110) = 20.
\<close>

theorem payoff_formulas:
  "straddlePayoff S K = max (S - K) 0 + max (K - S) 0
   \<and> stranglePayoff S K1 K2 = max (K1 - S) 0 + max (S - K2) 0
   \<and> bullSpreadPayoff S K1 K2 = max (S - K1) 0 - max (S - K2) 0
   \<and> bearSpreadPayoff S K1 K2 = max (K1 - S) 0 - max (S - K2) 0
   \<and> butterflySpreadPayoff S K1 K2 K3 = max (S - K1) 0 - 2 * max (S - K2) 0 + max (S - K3) 0
   \<and> straddlePayoff 100 100 = 0
   \<and> straddlePayoff 150 100 = 50
   \<and> straddlePayoff 50 100 = 50
   \<and> bullSpreadPayoff 120 90 110 = 20"
  by (simp add: straddlePayoff_def stranglePayoff_def bullSpreadPayoff_def
      bearSpreadPayoff_def butterflySpreadPayoff_def)

section \<open>Moving average\<close>

text \<open>The summation loop adds up the entries from \<open>i\<close> to \<open>t\<close>.\<close>

lemma ma_sum_eq:
  "0 \<le> i \<Longrightarrow> i \<le> t + 1 \<Longrightarrow> t < int (length ps) \<Longrightarrow>
   ma_sum ps i t acc = Some (acc + sum_list (take (nat (t + 1 - i)) (drop (nat i) ps)))"
proof (induction ps i t acc rule: ma_sum.induct)
  case (1 ps i t acc)
  show ?case
  proof (cases "i \<le> t")
    case False
    with "1.prems" have "i = t + 1" by simp
    then show ?thesis by (subst ma_sum.simps) simp
  next
    case True
    with "1.prems" have inr: "at_index ps i = Some (ps ! nat i)"
      by (simp add: at_index_def)
    have ih: "ma_sum ps (i + 1) t (acc + ps ! nat i) =
        Some (acc + ps ! nat i + sum_list (take (nat (t + 1 - (i + 1))) (drop (nat (i + 1)) ps)))"
      using "1.IH"[OF True inr] "1.prems" True by simp
    have len: "nat i < length ps" using "1.prems" True by linarith
    have n1: "nat (t + 1 - i) = Suc (nat (t + 1 - (i + 1)))" using True by linarith
    have n2: "nat (i + 1) = Suc (nat i)" using "1.prems" by linarith
    have "drop (nat i) ps = ps ! nat i # drop (Suc (nat i)) ps"
      using len by (simp add: Cons_nth_drop_Suc)
    then have "sum_list (take (nat (t + 1 - i)) (drop (nat i) ps)) =
        ps ! nat i + sum_list (take (nat (t + 1 - (i + 1))) (drop (nat (i + 1)) ps))"
      by (simp add: n1 n2)
    then show ?thesis
      using True inr ih by (subst ma_sum.simps) (simp add: algebra_simps)
  qed
qed

lemma length_recent:
  "0 \<le> n \<Longrightarrow> n \<le> t + 1 \<Longrightarrow> t < int (length ps) \<Longrightarrow> length (recent ps t n) = nat n"
  by (simp add: recent_def)

lemma computeMA_window:
  assumes "0 \<le> t" "t < int (length ps)" "1 \<le> w" "w - 1 \<le> t"
  shows "computeMA ps t w = Some (arithmetic_mean (recent ps t w))"
proof -
  have s: "ma_sum ps (t - w + 1) t 0 = Some (sum_list (recent ps t w))"
    using ma_sum_eq[of "t - w + 1" t ps 0] assms
    by (simp add: recent_def algebra_simps)
  have l: "length (recent ps t w) = nat w"
    using length_recent[of w t ps] assms by simp
  have "real (nat w) = of_int w" using assms by simp
  then show ?thesis
    using assms s l by (simp add: computeMA_def fdiv_def arithmetic_mean_def)
qed

text \<open>
  C9.  For a price history, a tick index \<open>t\<close> inside it and a window \<open>w \<ge> 1\<close>,
  \<^verbatim>\<open>computeMA\<close> returns the arithmetic mean of the \<open>w\<close> most recent prices ending at
  \<open>t\<close> inclusive when \<open>t \<ge> w - 1\<close>, and the price at \<open>t\<close> itself when \<open>t < w - 1\<close>;
  for the history [100] with window 5 it returns 100.
\<close>

theorem computeMA_spec:
  "(0 \<le> t \<and> t < int (length ps) \<and> 1 \<le> w \<longrightarrow>
      computeMA ps t w =
        Some (if t < w - 1 then ps ! nat t else arithmetic_mean (recent ps t w)))
   \<and> computeMA [100] 0 5 = Some 100"
proof (intro conjI impI)
  assume a: "0 \<le> t \<and> t < int (length ps) \<and> 1 \<le> w"
  show "computeMA ps t w =
        Some (if t < w - 1 then ps ! nat t else arithmetic_mean (recent ps t w))"
  proof (cases "t < w - 1")
    case True
    then show ?thesis using a by (simp add: computeMA_def at_index_def)
  next
    case False
    then show ?thesis using a computeMA_window[of t ps w] by simp
  qed
next
  show "computeMA [100] 0 5 = Some 100"
    by (simp add: computeMA_def at_index_def)
qed

text \<open>The theorem at the history [1, 2, 3, 6] with window 3: a full window at tick 3, warm-up at tick 1.\<close>

theorem computeMA_spec_witness:
  "computeMA [1, 2, 3, 6] 3 3 = Some (11 / 3) \<and> computeMA [1, 2, 3, 6] 1 3 = Some 2"
proof -
  have a: "recent [1, 2, 3, 6] 3 3 = [2, 3, 6::real]"
    by (simp add: recent_def)
  have b: "arithmetic_mean [2, 3, 6] = 11 / 3"
    by (simp add: arithmetic_mean_def)
  show ?thesis
    using computeMA_spec[of 3 "[1, 2, 3, 6]" 3] computeMA_spec[of 1 "[1, 2, 3, 6]" 3]
    by (simp add: a b)
qed

section \<open>Realized volatility\<close>

text \<open>On positive prices the loop appends one log-return per index from \<open>i\<close> to \<open>t\<close>.\<close>

lemma collect_returns_eq:
  "1 \<le> i \<Longrightarrow> i \<le> t + 1 \<Longrightarrow> t < int (length ps) \<Longrightarrow> \<forall>p\<in>set ps. 0 < p \<Longrightarrow>
   collect_returns ps i t acc =
     Some (acc @ map (\<lambda>j. ln (ps ! Suc j / ps ! j)) [nat (i - 1) ..< nat t])"
proof (induction ps i t acc rule: collect_returns.induct)
  case (1 ps i t acc)
  show ?case
  proof (cases "i \<le> t")
    case False
    with "1.prems" have "i = t + 1" by simp
    then show ?thesis by (subst collect_returns.simps) simp
  next
    case True
    have i0: "i \<noteq> 0" using "1.prems" by simp
    have len: "nat i < length ps" "nat (i - 1) < length ps"
      using "1.prems" True by linarith+
    have a: "at_index ps i = Some (ps ! nat i)"
      using "1.prems" True by (simp add: at_index_def)
    have b: "at_index ps (i - 1) = Some (ps ! nat (i - 1))"
      using "1.prems" True by (simp add: at_index_def)
    have pa: "0 < ps ! nat i" and pb: "0 < ps ! nat (i - 1)"
      using "1.prems"(4) len by (auto simp: nth_mem)
    have q: "fdiv (ps ! nat i) (ps ! nat (i - 1)) = Some (ps ! nat i / ps ! nat (i - 1))"
      using pb by (simp add: fdiv_def)
    have r: "flog (ps ! nat i / ps ! nat (i - 1)) = Some (ln (ps ! nat i / ps ! nat (i - 1)))"
      using divide_pos_pos[OF pa pb] by (simp add: flog_def)
    have ih: "collect_returns ps (i + 1) t (acc @ [ln (ps ! nat i / ps ! nat (i - 1))]) =
        Some ((acc @ [ln (ps ! nat i / ps ! nat (i - 1))]) @
              map (\<lambda>j. ln (ps ! Suc j / ps ! j)) [nat (i + 1 - 1) ..< nat t])"
      using "1.IH"(2)[OF True i0 a b q r] "1.prems" True by simp
    have n: "nat i = Suc (nat (i - 1))" "nat (i + 1 - 1) = Suc (nat (i - 1))" "nat (i - 1) < nat t"
      using "1.prems" True by linarith+
    have u: "[nat (i - 1) ..< nat t] = nat (i - 1) # [Suc (nat (i - 1)) ..< nat t]"
      using n(3) by (simp add: upt_conv_Cons)
    show ?thesis
      using True i0 a b q r ih
      by (subst collect_returns.simps) (simp add: u n(1,2))
  qed
qed

lemma foldl_add: "foldl (\<lambda>m r. m + r) a xs = a + sum_list (xs :: real list)"
  by (induction xs arbitrary: a) (simp_all add: algebra_simps)

lemma foldl_add_sq:
  "foldl (\<lambda>v r. v + (r - m) * (r - m)) a xs = a + sum_list (map (\<lambda>r. (r - m) * (r - m)) (xs :: real list))"
  by (induction xs arbitrary: a) (simp_all add: algebra_simps)

lemma log_returns_recent:
  assumes "1 \<le> w" "w \<le> t" "t < int (length ps)"
  shows "log_returns (recent ps t (w + 1)) =
         map (\<lambda>j. ln (ps ! Suc j / ps ! j)) [nat (t - w) ..< nat t]"
proof -
  have l: "length (recent ps t (w + 1)) = nat w + 1"
    using assms by (simp add: recent_def)
  have nth: "recent ps t (w + 1) ! k = ps ! (nat (t - w) + k)" if "k \<le> nat w" for k
    using that assms by (simp add: recent_def)
  show ?thesis
  proof (rule nth_equalityI)
    show "length (log_returns (recent ps t (w + 1))) =
          length (map (\<lambda>j. ln (ps ! Suc j / ps ! j)) [nat (t - w) ..< nat t])"
      using assms l by (simp add: log_returns_def)
  next
    fix k assume "k < length (log_returns (recent ps t (w + 1)))"
    then have k: "k < nat w" using l by (simp add: log_returns_def)
    then have k2: "nat (t - w) + k < nat t" using assms by linarith
    show "log_returns (recent ps t (w + 1)) ! k =
          map (\<lambda>j. ln (ps ! Suc j / ps ! j)) [nat (t - w) ..< nat t] ! k"
    proof -
      have lhs: "log_returns (recent ps t (w + 1)) ! k =
          ln (recent ps t (w + 1) ! Suc k / recent ps t (w + 1) ! k)"
        using k l by (simp add: log_returns_def)
      have rhs: "map (\<lambda>j. ln (ps ! Suc j / ps ! j)) [nat (t - w) ..< nat t] ! k =
          ln (ps ! Suc (nat (t - w) + k) / ps ! (nat (t - w) + k))"
      proof -
        have u: "[nat (t - w) ..< nat t] ! k = nat (t - w) + k"
          using k2 by (rule nth_upt)
        have m: "k < length [nat (t - w) ..< nat t]" using k2 by simp
        show ?thesis by (simp only: nth_map[OF m] u)
      qed
      show ?thesis
        using k nth[of k] nth[of "Suc k"] by (simp only: lhs rhs) simp
    qed
  qed
qed

lemma computeVolatility_full:
  assumes "1 \<le> w" "w \<le> t" "t < int (length ps)" "\<forall>p\<in>set ps. 0 < p"
  shows "computeVolatility ps t w = Some (population_stddev (log_returns (recent ps t (w + 1))))"
proof -
  let ?rs = "log_returns (recent ps t (w + 1))"
  have c: "collect_returns ps (t - w + 1) t [] = Some ?rs"
    using collect_returns_eq[of "t - w + 1" t ps "[]"] assms log_returns_recent[of w t ps]
    by simp
  have l: "length ?rs = nat w"
    using assms by (simp add: log_returns_recent)
  then have l0: "real (length ?rs) \<noteq> 0" using assms by simp
  show ?thesis
    using assms(2) c l0
    by (simp add: computeVolatility_def fdiv_def foldl_add foldl_add_sq population_stddev_def
        arithmetic_mean_def)
qed

lemma log_returns_replicate:
  "c \<noteq> 0 \<Longrightarrow> log_returns (replicate (Suc n) c) = replicate n 0"
  by (rule nth_equalityI) (simp_all add: log_returns_def del: replicate.simps)

lemma population_stddev_zeros: "population_stddev (replicate n 0) = 0"
  by (simp add: population_stddev_def arithmetic_mean_def sum_list_replicate)

lemma computeVolatility_identical:
  assumes "1 \<le> w" "w \<le> t" "t < int (length ps)" "\<forall>p\<in>set ps. 0 < p"
    and r: "recent ps t (w + 1) = replicate (nat (w + 1)) c"
  shows "computeVolatility ps t w = Some 0"
proof -
  have n: "nat (w + 1) = Suc (nat w)" using assms by linarith
  have "c \<in> set (recent ps t (w + 1))" by (simp add: r n)
  then have "c \<in> set ps"
    unfolding recent_def by (meson in_set_takeD in_set_dropD)
  then have "c \<noteq> 0" using assms(4) by auto
  then have "population_stddev (log_returns (recent ps t (w + 1))) = 0"
    by (simp add: r n log_returns_replicate population_stddev_zeros del: replicate.simps)
  then show ?thesis
    using computeVolatility_full[OF assms(1-4)] by simp
qed

lemma stddev_pair: "population_stddev [a, - a] = \<bar>a\<bar>"
  by (simp add: population_stddev_def arithmetic_mean_def)

lemma ln_half: "ln (1 / 2 :: real) = - ln 2"
  by (simp add: ln_div)

text \<open>
  C1 (as the code has it).  For a window \<open>w \<ge> 1\<close>, \<^verbatim>\<open>computeVolatility\<close> returns 0
  whenever \<open>t < w\<close>, that is, while fewer than \<open>w + 1\<close> observations exist.  Otherwise, on a
  history of positive prices containing index \<open>t\<close>, it returns the population standard
  deviation (divisor \<open>w\<close>, the number of returns) of the \<open>w\<close> log-returns
  \<open>ln (p\<^sub>i / p\<^sub>i\<^sub>-\<^sub>1)\<close> for \<open>i = t - w + 1, ..., t\<close>, which are taken over the \<open>w + 1\<close> most
  recent prices ending at \<open>t\<close> inclusive; when these \<open>w + 1\<close> prices are identical the
  result is exactly 0.
\<close>

theorem computeVolatility_spec:
  "(t < w \<longrightarrow> computeVolatility ps t w = Some 0)
   \<and> (1 \<le> w \<and> w \<le> t \<and> t < int (length ps) \<and> (\<forall>p\<in>set ps. 0 < p) \<longrightarrow>
        computeVolatility ps t w =
          Some (population_stddev (log_returns (recent ps t (w + 1)))))
   \<and> (1 \<le> w \<and> w \<le> t \<and> t < int (length ps) \<and> (\<forall>p\<in>set ps. 0 < p)
        \<and> recent ps t (w + 1) = replicate (nat (w + 1)) c \<longrightarrow>
        computeVolatility ps t w = Some 0)"
  using computeVolatility_full[of w t ps] computeVolatility_identical[of w t ps c]
  by (simp add: computeVolatility_def)

text \<open>
  The theorem on the history [1, 2, 1] with window 2 (warm-up at tick 1, the two returns
  \<open>ln 2\<close> and \<open>- ln 2\<close> at tick 2) and on three identical prices.
\<close>

theorem computeVolatility_spec_witness:
  "computeVolatility [1, 2, 1] 1 2 = Some 0
   \<and> computeVolatility [1, 2, 1] 2 2 = Some (ln 2)
   \<and> computeVolatility [1, 3, 3, 3] 3 2 = Some 0"
proof -
  have a: "recent [1, 2, 1] 2 3 = [1, 2, 1::real]"
    by (simp add: recent_def)
  have b: "log_returns [1, 2, 1] = [ln 2, - ln 2]"
    by (simp add: log_returns_def upt_rec ln_half)
  have c: "recent [1, 3, 3, 3] 3 (2 + 1) = replicate (nat (2 + 1)) (3::real)"
    by (simp add: recent_def numeral_3_eq_3)
  have d: "population_stddev (log_returns (replicate 3 3)) = 0"
    using log_returns_replicate[of 3 2] population_stddev_zeros[of 2]
    by (simp add: numeral_3_eq_3 del: replicate.simps)
  show ?thesis
    using computeVolatility_spec[of 1 2 "[1, 2, 1]" 0]
      computeVolatility_spec[of 2 2 "[1, 2, 1]" 0]
      computeVolatility_spec[of 3 2 "[1, 3, 3, 3]" 3] c
    by (simp add: a b d stddev_pair)
qed

text \<open>
  C1 as stated fails.  On [1, 2, 1] with window 3 and tick 2 there are exactly 3
  observations, the population standard deviation of the two log-returns over these 3
  prices is \<open>ln 2 \<noteq> 0\<close>, and the code returns 0.  On [1, 2, 2, 2] with window 3 and
  tick 3 the 3 most recent prices are identical, and the code does not return 0: it also
  takes the return from the price before them.
\<close>

theorem computeVolatility_counterexample:
  "computeVolatility [1, 2, 1] 2 3 = Some 0
   \<and> \<not> (2 < (3::int) - 1)
   \<and> population_stddev (log_returns (recent [1, 2, 1] 2 3)) = ln 2
   \<and> ln (2::real) \<noteq> 0
   \<and> recent [1, 2, 2, 2] 3 3 = [2, 2, 2]
   \<and> computeVolatility [1, 2, 2, 2] 3 3 \<noteq> Some 0"
proof -
  have a: "recent [1, 2, 1] 2 3 = [1, 2, 1::real]"
    by (simp add: recent_def)
  have b: "log_returns [1, 2, 1] = [ln 2, - ln 2]"
    by (simp add: log_returns_def upt_rec ln_half)
  have c: "recent [1, 2, 2, 2] 3 4 = [1, 2, 2, 2::real]"
    by (simp add: recent_def)
  have d: "log_returns [1, 2, 2, 2] = [ln 2, 0, 0]"
    by (simp add: log_returns_def upt_rec)
  have e: "computeVolatility [1, 2, 2, 2] 3 3 = Some (population_stddev [ln 2, 0, 0])"
    using computeVolatility_full[of 3 3 "[1, 2, 2, 2]"] by (simp add: c d)
  have pos: "0 < ln (2::real)" by simp
  have f: "population_stddev [ln 2, 0, 0] \<noteq> 0"
    using pos by (simp add: population_stddev_def arithmetic_mean_def field_simps)
  show ?thesis
    using e f by (simp add: computeVolatility_def a b stddev_pair recent_def)
qed

section \<open>Signals\<close>

text \<open>
  C8 (as the code has it).  The signal mapping.  Straddle is Enter (+1) iff volatility >
  high threshold, Exit (-1) iff volatility < low threshold and not volatility > high
  threshold (the test for Enter comes first), and Hold (0) iff it is neither above the
  high nor below the low threshold.  When low \<open>\<le>\<close> high, as \<^verbatim>\<open>main\<close> configures both pairs,
  Exit is iff volatility < low threshold.  Strangle is the same with its own thresholds.
  BullSpread is Enter iff shortMA > longMA and Exit otherwise, BearSpread is Enter iff
  shortMA < longMA and Exit otherwise, ButterflySpread is Enter iff volatility < low
  threshold and Exit otherwise; these three are never Hold.
\<close>

theorem generate_signals_spec:
  "(let sg = generate_signals cfg shortMA longMA vol in
      (alphaStraddle sg = 1 \<longleftrightarrow> vol > volThresholdHigh cfg)
    \<and> (alphaStraddle sg = - 1 \<longleftrightarrow> vol < volThresholdLow cfg \<and> \<not> vol > volThresholdHigh cfg)
    \<and> (alphaStraddle sg = 0 \<longleftrightarrow> \<not> vol > volThresholdHigh cfg \<and> \<not> vol < volThresholdLow cfg)
    \<and> (alphaStrangle sg = 1 \<longleftrightarrow> vol > volThresholdHighStrangle cfg)
    \<and> (alphaStrangle sg = - 1 \<longleftrightarrow>
          vol < volThresholdLowStrangle cfg \<and> \<not> vol > volThresholdHighStrangle cfg)
    \<and> (alphaStrangle sg = 0 \<longleftrightarrow>
          \<not> vol > volThresholdHighStrangle cfg \<and> \<not> vol < volThresholdLowStrangle cfg)
    \<and> (alphaBull sg = 1 \<longleftrightarrow> shortMA > longMA)
    \<and> (alphaBull sg = - 1 \<longleftrightarrow> \<not> shortMA > longMA)
    \<and> (alphaBear sg = 1 \<longleftrightarrow> shortMA < longMA)
    \<and> (alphaBear sg = - 1 \<longleftrightarrow> \<not> shortMA < longMA)
    \<and> (alphaButterfly sg = 1 \<longleftrightarrow> vol < volThresholdLow cfg)
    \<and> (alphaButterfly sg = - 1 \<longleftrightarrow> \<not> vol < volThresholdLow cfg)
    \<and> alphaBull sg \<noteq> 0 \<and> alphaBear sg \<noteq> 0 \<and> alphaButterfly sg \<noteq> 0
    \<and> (volThresholdLow cfg \<le> volThresholdHigh cfg \<longrightarrow>
          (alphaStraddle sg = - 1 \<longleftrightarrow> vol < volThresholdLow cfg))
    \<and> (volThresholdLowStrangle cfg \<le> volThresholdHighStrangle cfg \<longrightarrow>
          (alphaStrangle sg = - 1 \<longleftrightarrow> vol < volThresholdLowStrangle cfg)))
   \<and> volThresholdLow main_config \<le> volThresholdHigh main_config
   \<and> volThresholdLowStrangle main_config \<le> volThresholdHighStrangle main_config"
  by (auto simp: generate_signals_def Let_def main_config_def)

text \<open>The signals of \<^verbatim>\<open>main\<close>'s thresholds at volatility 0.003 and 0.011.\<close>

theorem generate_signals_spec_witness:
  "alphaStraddle (generate_signals main_config 101 100 0.003) = - 1
   \<and> alphaStrangle (generate_signals main_config 101 100 0.003) = - 1
   \<and> alphaButterfly (generate_signals main_config 101 100 0.003) = 1
   \<and> alphaBull (generate_signals main_config 101 100 0.003) = 1
   \<and> alphaBear (generate_signals main_config 101 100 0.003) = - 1
   \<and> alphaStraddle (generate_signals main_config 100 100 0.011) = 1
   \<and> alphaStrangle (generate_signals main_config 100 100 0.011) = 0"
proof -
  have c: "volThresholdHigh main_config = 0.01" "volThresholdLow main_config = 0.005"
    "volThresholdHighStrangle main_config = 0.012" "volThresholdLowStrangle main_config = 0.007"
    by (simp_all add: main_config_def)
  show ?thesis
    using generate_signals_spec[of main_config 101 100 "0.003"]
      generate_signals_spec[of main_config 100 100 "0.011"]
    by (simp add: Let_def c)
qed

text \<open>
  C8 as stated fails.  With the high threshold 0.005 below the low threshold 0.01 and
  volatility 0.008, the volatility is below the low threshold, and the Straddle signal is
  Enter, not Exit: the test against the high threshold comes first.  The Butterfly signal,
  which tests the low threshold alone, is Enter as well.
\<close>

theorem generate_signals_counterexample:
  "volThresholdHigh crossed_config = 0.005 \<and> volThresholdLow crossed_config = 0.01
   \<and> (0.008::real) < volThresholdLow crossed_config
   \<and> alphaStraddle (generate_signals crossed_config 100 100 0.008) = 1
   \<and> alphaButterfly (generate_signals crossed_config 100 100 0.008) = 1"
  by (simp add: generate_signals_def crossed_config_def main_config_def)

section \<open>The main loop\<close>

text \<open>The loop from tick \<open>k + 1\<close> on ends in the state after the last tick.\<close>

lemma main_loop_state_at:
  "state_at cfg mem Z k = Some st \<Longrightarrow> int k \<le> totalTicks cfg - 1 \<Longrightarrow>
   main_loop cfg Z (int k + 1) st = state_at cfg mem Z (nat (totalTicks cfg - 1))"
proof (induction "nat (totalTicks cfg - 1) - k" arbitrary: k st)
  case 0
  then have "nat (totalTicks cfg - 1) = k" by linarith
  moreover have "\<not> int k + 1 < totalTicks cfg" using 0 by linarith
  ultimately show ?case using 0 by (subst main_loop.simps) simp
next
  case (Suc n)
  then have lt: "int k + 1 < totalTicks cfg" by linarith
  have nk: "nat (int k + 1) = Suc k" by simp
  have ik: "int (Suc k) = int k + 1" by simp
  have step: "main_loop cfg Z (int k + 1) st =
      (case tick cfg (Z (Suc k)) (int k + 1) st of
         None \<Rightarrow> None
       | Some st' \<Rightarrow> main_loop cfg Z (int k + 1 + 1) st')"
    by (subst main_loop.simps) (simp only: lt nk if_True)
  have sa: "state_at cfg mem Z (Suc k) = tick cfg (Z (Suc k)) (int k + 1) st"
    using Suc.prems(1) by (simp only: state_at.simps ik option.case)
  show ?case
  proof (cases "tick cfg (Z (Suc k)) (int k + 1) st")
    case None
    have "state_at cfg mem Z (Suc k) = None" using sa None by simp
    then have "state_at cfg mem Z (Suc k + j) = None" for j
      by (induction j) simp_all
    from this[of "nat (totalTicks cfg - 1) - Suc k"]
    have "state_at cfg mem Z (nat (totalTicks cfg - 1)) = None"
      using lt by simp
    then show ?thesis
      using None by (simp only: step option.case)
  next
    case (Some st')
    have s: "state_at cfg mem Z (Suc k) = Some st'" using sa Some by simp
    have "main_loop cfg Z (int (Suc k) + 1) st' = state_at cfg mem Z (nat (totalTicks cfg - 1))"
      using Suc.hyps(1)[of "Suc k" st'] Suc.hyps(2) s lt by simp
    then show ?thesis
      using Some by (simp only: step option.case ik)
  qed
qed

lemma main_sim_state_at:
  "main_sim cfg mem Z = state_at cfg mem Z (nat (totalTicks cfg - 1))"
proof (cases "1 \<le> totalTicks cfg")
  case True
  then show ?thesis
    using main_loop_state_at[of cfg mem Z 0 "init_state cfg mem"] by (simp add: main_sim_def)
next
  case False
  then show ?thesis by (simp add: main_sim_def)
qed

section \<open>The trade blocks\<close>

text \<open>Each block touches its own slot only, and on it is the lifecycle step.\<close>

lemma straddle_block_frame:
  "prices (straddle_block h d t S a st) = prices st"
  "j \<noteq> 1 \<Longrightarrow> activeTrades (straddle_block h d t S a st) j = activeTrades st j"
  "j \<noteq> 1 \<Longrightarrow> cumulativePnL (straddle_block h d t S a st) j = cumulativePnL st j"
  by (simp_all add: straddle_block_def Let_def)

lemma straddle_block_slot:
  "(activeTrades (straddle_block h d t S a st) 1, cumulativePnL (straddle_block h d t S a st) 1) =
   slot_step Straddle h d t S a (activeTrades st 1, cumulativePnL st 1)"
  by (simp add: straddle_block_def slot_step_def close_trade_def Let_def)

lemma strangle_block_frame:
  "prices (strangle_block h d t S a st) = prices st"
  "j \<noteq> 2 \<Longrightarrow> activeTrades (strangle_block h d t S a st) j = activeTrades st j"
  "j \<noteq> 2 \<Longrightarrow> cumulativePnL (strangle_block h d t S a st) j = cumulativePnL st j"
  by (simp_all add: strangle_block_def Let_def)

lemma strangle_block_slot:
  "(activeTrades (strangle_block h d t S a st) 2, cumulativePnL (strangle_block h d t S a st) 2) =
   slot_step Strangle h d t S a (activeTrades st 2, cumulativePnL st 2)"
  by (simp add: strangle_block_def slot_step_def close_trade_def Let_def)

lemma bull_block_frame:
  "prices (bull_block h d t S a st) = prices st"
  "j \<noteq> 3 \<Longrightarrow> activeTrades (bull_block h d t S a st) j = activeTrades st j"
  "j \<noteq> 3 \<Longrightarrow> cumulativePnL (bull_block h d t S a st) j = cumulativePnL st j"
  by (simp_all add: bull_block_def Let_def)

lemma bull_block_slot:
  "(activeTrades (bull_block h d t S a st) 3, cumulativePnL (bull_block h d t S a st) 3) =
   slot_step BullSpread h d t S a (activeTrades st 3, cumulativePnL st 3)"
  by (simp add: bull_block_def slot_step_def close_trade_def Let_def)

lemma bear_block_frame:
  "prices (bear_block h d t S a st) = prices st"
  "j \<noteq> 4 \<Longrightarrow> activeTrades (bear_block h d t S a st) j = activeTrades st j"
  "j \<noteq> 4 \<Longrightarrow> cumulativePnL (bear_block h d t S a st) j = cumulativePnL st j"
  by (simp_all add: bear_block_def Let_def)

lemma bear_block_slot:
  "(activeTrades (bear_block h d t S a st) 4, cumulativePnL (bear_block h d t S a st) 4) =
   slot_step BearSpread h d t S a (activeTrades st 4, cumulativePnL st 4)"
  by (simp add: bear_block_def slot_step_def close_trade_def Let_def)

lemma butterfly_block_frame:
  "prices (butterfly_block h d t S a st) = prices st"
  "j \<noteq> 5 \<Longrightarrow> activeTrades (butterfly_block h d t S a st) j = activeTrades st j"
  "j \<noteq> 5 \<Longrightarrow> cumulativePnL (butterfly_block h d t S a st) j = cumulativePnL st j"
  by (simp_all add: butterfly_block_def Let_def)

lemma butterfly_block_slot:
  "(activeTrades (butterfly_block h d t S a st) 5, cumulativePnL (butterfly_block h d t S a st) 5) =
   slot_step ButterflySpread h d t S a (activeTrades st 5, cumulativePnL st 5)"
  by (simp add: butterfly_block_def slot_step_def close_trade_def Let_def)

lemmas block_frames = straddle_block_frame strangle_block_frame bull_block_frame
  bear_block_frame butterfly_block_frame

lemma execute_trades_prices: "prices (execute_trades cfg t S sg st) = prices st"
  by (simp add: execute_trades_def Let_def block_frames)

lemma execute_trades_slot:
  "(activeTrades (execute_trades cfg t S sg st) (slot s),
    cumulativePnL (execute_trades cfg t S sg st) (slot s)) =
   slot_step s (holdPeriod cfg) (delta cfg) t S (signal_of s sg)
     (activeTrades st (slot s), cumulativePnL st (slot s))"
proof (cases s)
  case Straddle
  then show ?thesis
    using straddle_block_slot[of "holdPeriod cfg" "delta cfg" t S "alphaStraddle sg" st]
    by (simp add: execute_trades_def Let_def block_frames)
next
  case Strangle
  then show ?thesis
    using strangle_block_slot[of "holdPeriod cfg" "delta cfg" t S "alphaStrangle sg"
        "straddle_block (holdPeriod cfg) (delta cfg) t S (alphaStraddle sg) st"]
    by (simp add: execute_trades_def Let_def block_frames)
next
  case BullSpread
  then show ?thesis
    using bull_block_slot[of "holdPeriod cfg" "delta cfg" t S "alphaBull sg"
        "strangle_block (holdPeriod cfg) (delta cfg) t S (alphaStrangle sg)
          (straddle_block (holdPeriod cfg) (delta cfg) t S (alphaStraddle sg) st)"]
    by (simp add: execute_trades_def Let_def block_frames)
next
  case BearSpread
  then show ?thesis
    using bear_block_slot[of "holdPeriod cfg" "delta cfg" t S "alphaBear sg"
        "bull_block (holdPeriod cfg) (delta cfg) t S (alphaBull sg)
          (strangle_block (holdPeriod cfg) (delta cfg) t S (alphaStrangle sg)
            (straddle_block (holdPeriod cfg) (delta cfg) t S (alphaStraddle sg) st))"]
    by (simp add: execute_trades_def Let_def block_frames)
next
  case ButterflySpread
  then show ?thesis
    using butterfly_block_slot[of "holdPeriod cfg" "delta cfg" t S "alphaButterfly sg"
        "bear_block (holdPeriod cfg) (delta cfg) t S (alphaBear sg)
          (bull_block (holdPeriod cfg) (delta cfg) t S (alphaBull sg)
            (strangle_block (holdPeriod cfg) (delta cfg) t S (alphaStrangle sg)
              (straddle_block (holdPeriod cfg) (delta cfg) t S (alphaStraddle sg) st)))"]
    by (simp add: execute_trades_def Let_def block_frames)
qed

lemma execute_trades_other:
  "j \<notin> {1, 2, 3, 4, 5} \<Longrightarrow>
   activeTrades (execute_trades cfg t S sg st) j = activeTrades st j
   \<and> cumulativePnL (execute_trades cfg t S sg st) j = cumulativePnL st j"
  by (simp add: execute_trades_def Let_def block_frames)

lemma tick_Some:
  assumes "tick cfg Z t st = Some st'"
  shows "\<exists>sg. compute_signals cfg (prices st') t = Some sg
           \<and> prices st \<noteq> []
           \<and> gbm_next cfg (last (prices st)) Z = Some (last (prices st'))
           \<and> prices st' = prices st @ [last (prices st')]
           \<and> st' = execute_trades cfg t (last (prices st')) sg (st\<lparr>prices := prices st'\<rparr>)"
  using assms
  by (auto simp: tick_def Let_def execute_trades_prices split: if_splits option.splits)

lemma tick_slot:
  assumes "tick cfg Z t st = Some st'"
  shows "\<exists>sg. compute_signals cfg (prices st') t = Some sg \<and>
           (\<forall>s. (activeTrades st' (slot s), cumulativePnL st' (slot s)) =
                slot_step s (holdPeriod cfg) (delta cfg) t (last (prices st')) (signal_of s sg)
                  (activeTrades st (slot s), cumulativePnL st (slot s)))"
proof -
  from tick_Some[OF assms] obtain sg where
    sg: "compute_signals cfg (prices st') t = Some sg"
    and st': "st' = execute_trades cfg t (last (prices st')) sg (st\<lparr>prices := prices st'\<rparr>)"
    by blast
  have "(activeTrades st' (slot s), cumulativePnL st' (slot s)) =
        slot_step s (holdPeriod cfg) (delta cfg) t (last (prices st')) (signal_of s sg)
          (activeTrades st (slot s), cumulativePnL st (slot s))" for s
    using execute_trades_slot[of cfg t "last (prices st')" sg "st\<lparr>prices := prices st'\<rparr>" s] st'
    by simp
  with sg show ?thesis by blast
qed

section \<open>The price path\<close>

text \<open>On positive prices and windows of at least 1 the indicators have a value.\<close>

lemma computeMA_Some:
  assumes "0 \<le> t" "t < int (length ps)" "1 \<le> w"
  shows "\<exists>m. computeMA ps t w = Some m"
proof (cases "t < w - 1")
  case True
  then show ?thesis using assms by (simp add: computeMA_def at_index_def)
next
  case False
  then show ?thesis using computeMA_window[of t ps w] assms by simp
qed

lemma computeVolatility_Some:
  assumes "0 \<le> t" "t < int (length ps)" "1 \<le> w" "\<forall>p\<in>set ps. 0 < p"
  shows "\<exists>v. computeVolatility ps t w = Some v"
proof (cases "t < w")
  case True
  then show ?thesis by (simp add: computeVolatility_def)
next
  case False
  then show ?thesis using computeVolatility_full[of w t ps] assms by simp
qed

lemma compute_signals_Some:
  assumes "1 \<le> shortWindow cfg" "1 \<le> longWindow cfg" "1 \<le> volWindow cfg"
    and "0 \<le> t" "t < int (length ps)" "\<forall>p\<in>set ps. 0 < p"
  shows "\<exists>sg. compute_signals cfg ps t = Some sg"
proof -
  obtain a where a: "computeMA ps t (shortWindow cfg) = Some a"
    using computeMA_Some[of t ps "shortWindow cfg"] assms by blast
  obtain b where b: "computeMA ps t (longWindow cfg) = Some b"
    using computeMA_Some[of t ps "longWindow cfg"] assms by blast
  obtain v where v: "computeVolatility ps t (volWindow cfg) = Some v"
    using computeVolatility_Some[of t ps "volWindow cfg"] assms by blast
  show ?thesis by (simp add: compute_signals_def a b v)
qed

lemma gbm_next_pos:
  "0 < S_prev \<Longrightarrow> 0 \<le> dt cfg \<Longrightarrow> \<exists>S_new. gbm_next cfg S_prev Z = Some S_new \<and> 0 < S_new"
  by (simp add: gbm_next_def fsqrt_def)

lemma tick_total:
  assumes "1 \<le> shortWindow cfg" "1 \<le> longWindow cfg" "1 \<le> volWindow cfg" "0 \<le> dt cfg"
    and "0 \<le> t" "int (length (prices st)) = t" "prices st \<noteq> []" "\<forall>p\<in>set (prices st). 0 < p"
  shows "\<exists>st' S_new. tick cfg Z t st = Some st'
           \<and> gbm_next cfg (last (prices st)) Z = Some S_new
           \<and> prices st' = prices st @ [S_new]
           \<and> (\<forall>p\<in>set (prices st'). 0 < p)"
proof -
  have "0 < last (prices st)" using assms(7,8) by simp
  then obtain S_new where g: "gbm_next cfg (last (prices st)) Z = Some S_new" "0 < S_new"
    using gbm_next_pos[of "last (prices st)" cfg Z] assms(4) by blast
  let ?ps = "prices st @ [S_new]"
  have pos: "\<forall>p\<in>set ?ps. 0 < p" using assms(8) g(2) by simp
  have "t < int (length ?ps)" using assms(6) by simp
  then obtain sg where sg: "compute_signals cfg ?ps t = Some sg"
    using compute_signals_Some[of cfg t ?ps] assms(1-3,5) pos by blast
  show ?thesis
    using assms(7) sg pos g by (simp add: tick_def Let_def execute_trades_prices)
qed

lemma state_at_total:
  assumes "1 \<le> shortWindow cfg" "1 \<le> longWindow cfg" "1 \<le> volWindow cfg" "0 \<le> dt cfg"
    and "0 < S0 cfg"
  shows "\<exists>st. state_at cfg mem Z k = Some st \<and> length (prices st) = Suc k
           \<and> (\<forall>p\<in>set (prices st). 0 < p)"
proof (induction k)
  case 0
  show ?case using assms(5) by (simp add: init_state_def)
next
  case (Suc k)
  then obtain st where st: "state_at cfg mem Z k = Some st" "length (prices st) = Suc k"
    "\<forall>p\<in>set (prices st). 0 < p" by blast
  have ne: "prices st \<noteq> []" using st(2) by auto
  have len: "int (length (prices st)) = int (Suc k)" using st(2) by simp
  obtain st' S_new where st': "tick cfg (Z (Suc k)) (int (Suc k)) st = Some st'"
    "prices st' = prices st @ [S_new]"
    "\<forall>p\<in>set (prices st'). 0 < p"
    using tick_total[OF assms(1-4) _ len ne st(3), of "Z (Suc k)"] by auto
  show ?case using st(1,2) st' by simp
qed

lemma main_config_simps:
  "totalTicks main_config = 10000" "S0 main_config = 100" "holdPeriod main_config = 10"
  "delta main_config = 0.05" "shortWindow main_config = 5" "longWindow main_config = 20"
  "volWindow main_config = 5"
  by (simp_all add: main_config_def)

lemma gbm_next_draw_for:
  assumes "0 < r"
  shows "gbm_next main_config p (draw_for r) = Some (p * r)"
proof -
  have d: "fsqrt (dt main_config) = Some 1"
    by (simp add: fsqrt_def main_config_def)
  have "(mu main_config - 0.5 * sigma main_config * sigma main_config) * dt main_config
        + sigma main_config * 1 * draw_for r = ln r"
    by (simp add: main_config_def draw_for_def field_simps)
  then show ?thesis using assms by (simp add: gbm_next_def d)
qed

lemma tick_main_total:
  assumes "int (length (prices st)) = t" "prices st \<noteq> []" "\<forall>p\<in>set (prices st). 0 < p"
  shows "\<exists>st' S_new. tick main_config z t st = Some st'
           \<and> gbm_next main_config (last (prices st)) z = Some S_new
           \<and> prices st' = prices st @ [S_new]"
proof -
  have "0 \<le> t" using assms(1) by linarith
  moreover have "0 \<le> dt main_config" by (simp add: main_config_def)
  ultimately show ?thesis
    using tick_total[of main_config t st z] assms by (simp add: main_config_simps) blast
qed

lemma tick_main_draw:
  assumes "int (length (prices st)) = t" "prices st \<noteq> []" "\<forall>p\<in>set (prices st). 0 < p"
    and "z = draw_for r" "0 < r"
  shows "\<exists>st'. tick main_config z t st = Some st'
           \<and> prices st' = prices st @ [last (prices st) * r]"
  using tick_main_total[OF assms(1-3), of z] gbm_next_draw_for[OF assms(5), of "last (prices st)"]
  by (auto simp: assms(4))







































section \<open>The trade lifecycle\<close>

text \<open>
  C4.  At every tick that the loop body completes, for every strategy: if its slot is flat
  and its signal is Enter, the slot is open afterwards, with entry tick the current tick,
  entry price the current price, strikes by the strategy's offset rule from that price
  (Straddle: S; Strangle and BullSpread: S(1-d), S(1+d); BearSpread: S(1+d), S(1-d);
  Butterfly: S(1-d), S, S(1+d)), volume 10 and an unchanged running total; if it is open
  and the holding period has elapsed or the signal is Exit, the strategy's payoff at the
  current price and the recorded strikes, times the volume, is added to the running total
  and the slot is flat afterwards; otherwise trade and total are unchanged.  A slot opened
  at a tick is open after that tick: it is not closed at the same tick.
\<close>

theorem trade_lifecycle_step:
  assumes "tick cfg Z t st = Some st'"
  shows "\<exists>sg. compute_signals cfg (prices st') t = Some sg \<and>
    (let S = last (prices st');
         tr = activeTrades st (slot s); tr' = activeTrades st' (slot s);
         pnl = cumulativePnL st (slot s); pnl' = cumulativePnL st' (slot s);
         alpha = signal_of s sg
     in (\<not> open_flag tr \<and> alpha = 1 \<longrightarrow>
           open_flag tr' \<and> entryTick tr' = t \<and> entryPrice tr' = S
           \<and> recorded_strikes s tr' = entry_strikes s S (delta cfg)
           \<and> volume tr' = 10 \<and> pnl' = pnl)
      \<and> (open_flag tr \<and> (t - entryTick tr \<ge> holdPeriod cfg \<or> alpha = - 1) \<longrightarrow>
           \<not> open_flag tr'
           \<and> pnl' = pnl + strategy_payoff s S tr * of_int (volume tr)
           \<and> payoff tr' = strategy_payoff s S tr * of_int (volume tr)
           \<and> exitTick tr' = t \<and> exitPrice tr' = S
           \<and> recorded_strikes s tr' = recorded_strikes s tr)
      \<and> (\<not> (\<not> open_flag tr \<and> alpha = 1)
          \<and> \<not> (open_flag tr \<and> (t - entryTick tr \<ge> holdPeriod cfg \<or> alpha = - 1)) \<longrightarrow>
           tr' = tr \<and> pnl' = pnl))"
proof -
  from tick_slot[OF assms] obtain sg where
    sg: "compute_signals cfg (prices st') t = Some sg"
    and sl: "(activeTrades st' (slot s), cumulativePnL st' (slot s)) =
                slot_step s (holdPeriod cfg) (delta cfg) t (last (prices st')) (signal_of s sg)
                  (activeTrades st (slot s), cumulativePnL st (slot s))"
    by blast
  have "(let S = last (prices st');
         tr = activeTrades st (slot s); tr' = activeTrades st' (slot s);
         pnl = cumulativePnL st (slot s); pnl' = cumulativePnL st' (slot s);
         alpha = signal_of s sg
     in (\<not> open_flag tr \<and> alpha = 1 \<longrightarrow>
           open_flag tr' \<and> entryTick tr' = t \<and> entryPrice tr' = S
           \<and> recorded_strikes s tr' = entry_strikes s S (delta cfg)
           \<and> volume tr' = 10 \<and> pnl' = pnl)
      \<and> (open_flag tr \<and> (t - entryTick tr \<ge> holdPeriod cfg \<or> alpha = - 1) \<longrightarrow>
           \<not> open_flag tr'
           \<and> pnl' = pnl + strategy_payoff s S tr * of_int (volume tr)
           \<and> payoff tr' = strategy_payoff s S tr * of_int (volume tr)
           \<and> exitTick tr' = t \<and> exitPrice tr' = S
           \<and> recorded_strikes s tr' = recorded_strikes s tr)
      \<and> (\<not> (\<not> open_flag tr \<and> alpha = 1)
          \<and> \<not> (open_flag tr \<and> (t - entryTick tr \<ge> holdPeriod cfg \<or> alpha = - 1)) \<longrightarrow>
           tr' = tr \<and> pnl' = pnl))"
    using sl by (cases s) (auto simp: slot_step_def close_trade_def Let_def)
  with sg show ?thesis by blast
qed

lemma compute_signals_demo:
  "compute_signals main_config [100, 100] 1 =
     Some \<lparr>alphaStraddle = - 1, alphaStrangle = - 1, alphaBull = - 1, alphaBear = - 1,
           alphaButterfly = 1\<rparr>"
  by (simp add: compute_signals_def computeMA_def computeVolatility_def at_index_def
      generate_signals_def main_config_def)

lemma tick_demo: "tick main_config (draw_for 1) 1 demo_state \<noteq> None"
proof -
  have g: "gbm_next main_config 100 (draw_for 1) = Some 100"
    using gbm_next_draw_for[of 1 100] by simp
  show ?thesis
    by (simp add: tick_def demo_state_def g compute_signals_demo)
qed

text \<open>
  One tick of \<^verbatim>\<open>main\<close>'s configuration on \<open>demo_state\<close>, the price staying at 100: the
  butterfly slot is entered, the straddle is closed with payoff 10 times volume 10, the
  strangle slot is unchanged.
\<close>

theorem trade_lifecycle_step_witness:
  "\<exists>st'. tick main_config (draw_for 1) 1 demo_state = Some st'
     \<and> open_flag (activeTrades st' 5) \<and> entryTick (activeTrades st' 5) = 1
     \<and> recorded_strikes ButterflySpread (activeTrades st' 5) = [95, 100, 105]
     \<and> volume (activeTrades st' 5) = 10 \<and> cumulativePnL st' 5 = 0
     \<and> open_flag (activeTrades demo_state 1) \<and> \<not> open_flag (activeTrades st' 1)
     \<and> cumulativePnL st' 1 = 100
     \<and> activeTrades st' 2 = activeTrades demo_state 2"
proof -
  have g: "gbm_next main_config 100 (draw_for 1) = Some 100"
    using gbm_next_draw_for[of 1 100] by simp
  have "tick main_config (draw_for 1) 1 demo_state \<noteq> None"
    by (simp add: tick_def demo_state_def g compute_signals_demo)
  then obtain st' where t: "tick main_config (draw_for 1) 1 demo_state = Some st'"
    by blast
  have ps: "prices st' = [100, 100]"
    using tick_Some[OF t] by (auto simp: demo_state_def g)
  have d: "delta main_config = 0.05" "holdPeriod main_config = 10"
    by (simp_all add: main_config_def)
  have a: "open_flag (activeTrades st' 5) \<and> entryTick (activeTrades st' 5) = 1
     \<and> recorded_strikes ButterflySpread (activeTrades st' 5) = [95, 100, 105]
     \<and> volume (activeTrades st' 5) = 10 \<and> cumulativePnL st' 5 = 0"
    using trade_lifecycle_step[OF t, of ButterflySpread]
    by (simp add: ps compute_signals_demo demo_state_def zero_trade_def d Let_def)
  have b: "open_flag (activeTrades demo_state 1) \<and> \<not> open_flag (activeTrades st' 1)
     \<and> cumulativePnL st' 1 = 100"
    using trade_lifecycle_step[OF t, of Straddle]
    by (simp add: ps compute_signals_demo demo_state_def zero_trade_def d straddlePayoff_def Let_def)
  have c: "activeTrades st' 2 = activeTrades demo_state 2"
    using trade_lifecycle_step[OF t, of Strangle]
    by (simp add: ps compute_signals_demo demo_state_def zero_trade_def d Let_def)
  show ?thesis using t a b c by blast
qed

section \<open>Bull and bear signals\<close>

text \<open>
  C10.  The BullSpread and BearSpread signals are each +1 or -1, never both +1, and both
  -1 exactly when shortMA = longMA; so no tick opens a new trade in both slots 3 and 4.
\<close>

theorem bull_bear_exclusive:
  "(let sg = generate_signals cfg shortMA longMA vol in
      (alphaBull sg = 1 \<or> alphaBull sg = - 1)
    \<and> (alphaBear sg = 1 \<or> alphaBear sg = - 1)
    \<and> \<not> (alphaBull sg = 1 \<and> alphaBear sg = 1)
    \<and> (alphaBull sg = - 1 \<and> alphaBear sg = - 1 \<longleftrightarrow> shortMA = longMA))
   \<and> (tick cfg Z t st = Some st' \<longrightarrow>
        \<not> (\<not> open_flag (activeTrades st 3) \<and> open_flag (activeTrades st' 3)
           \<and> \<not> open_flag (activeTrades st 4) \<and> open_flag (activeTrades st' 4)))"
proof (intro conjI impI)
  show "let sg = generate_signals cfg shortMA longMA vol in
      (alphaBull sg = 1 \<or> alphaBull sg = - 1)
    \<and> (alphaBear sg = 1 \<or> alphaBear sg = - 1)
    \<and> \<not> (alphaBull sg = 1 \<and> alphaBear sg = 1)
    \<and> (alphaBull sg = - 1 \<and> alphaBear sg = - 1 \<longleftrightarrow> shortMA = longMA)"
    by (auto simp: generate_signals_def Let_def)
next
  assume t: "tick cfg Z t st = Some st'"
  from tick_slot[OF t] obtain sg where
    sg: "compute_signals cfg (prices st') t = Some sg"
    and sl: "\<And>s. (activeTrades st' (slot s), cumulativePnL st' (slot s)) =
                slot_step s (holdPeriod cfg) (delta cfg) t (last (prices st')) (signal_of s sg)
                  (activeTrades st (slot s), cumulativePnL st (slot s))"
    by blast
  from sg obtain a b v where g: "sg = generate_signals cfg a b v"
    by (auto simp: compute_signals_def split: option.splits)
  have nb: "\<not> (alphaBull sg = 1 \<and> alphaBear sg = 1)"
    by (auto simp: g generate_signals_def)
  show "\<not> (\<not> open_flag (activeTrades st 3) \<and> open_flag (activeTrades st' 3)
           \<and> \<not> open_flag (activeTrades st 4) \<and> open_flag (activeTrades st' 4))"
  proof
    assume h: "\<not> open_flag (activeTrades st 3) \<and> open_flag (activeTrades st' 3)
           \<and> \<not> open_flag (activeTrades st 4) \<and> open_flag (activeTrades st' 4)"
    have "alphaBull sg = 1"
      using sl[of BullSpread] h by (auto simp: slot_step_def Let_def split: if_splits)
    moreover have "alphaBear sg = 1"
      using sl[of BearSpread] h by (auto simp: slot_step_def Let_def split: if_splits)
    ultimately show False using nb by simp
  qed
qed

lemma compute_signals_demo4:
  "compute_signals main_config [100, 100, 100, 100, 110] 4 =
     Some (generate_signals main_config 102 110 0)"
proof -
  have a: "computeMA [100, 100, 100, 100, 110] 4 5 = Some 102"
    using computeMA_window[of 4 "[100, 100, 100, 100, 110]" 5]
    by (simp add: recent_def arithmetic_mean_def)
  have b: "computeMA [100, 100, 100, 100, 110] 4 20 = Some 110"
    by (simp add: computeMA_def at_index_def)
  have c: "computeVolatility [100, 100, 100, 100, 110] 4 5 = Some 0"
    by (simp add: computeVolatility_def)
  have w: "shortWindow main_config = 5" "longWindow main_config = 20" "volWindow main_config = 5"
    by (simp_all add: main_config_def)
  show ?thesis
    by (simp add: compute_signals_def w a b c)
qed

text \<open>
  Tick 4 on \<open>demo_state4\<close> with the price rising to 110: the short average 102 is below
  the long one 110, the bear slot opens and the bull slot does not.
\<close>

theorem bull_bear_exclusive_witness:
  "alphaBull (generate_signals main_config 102 110 0) = - 1
   \<and> alphaBear (generate_signals main_config 102 110 0) = 1
   \<and> alphaBull (generate_signals main_config 100 100 0) = - 1
   \<and> alphaBear (generate_signals main_config 100 100 0) = - 1
   \<and> (\<exists>st'. tick main_config (draw_for (11 / 10)) 4 demo_state4 = Some st'
          \<and> open_flag (activeTrades st' 4) \<and> \<not> open_flag (activeTrades st' 3))"
proof -
  have g: "gbm_next main_config 100 (draw_for (11 / 10)) = Some 110"
    using gbm_next_draw_for[of "11 / 10" 100] by simp
  note cs = compute_signals_demo4
  have "tick main_config (draw_for (11 / 10)) 4 demo_state4 \<noteq> None"
    by (simp add: tick_def demo_state4_def g cs)
  then obtain st' where t: "tick main_config (draw_for (11 / 10)) 4 demo_state4 = Some st'"
    by blast
  have ps: "prices st' = [100, 100, 100, 100, 110]"
    using tick_Some[OF t] by (auto simp: demo_state4_def g)
  have o4: "open_flag (activeTrades st' 4)"
    using tick_slot[OF t] ps cs
    by (auto simp: slot_step_def Let_def demo_state4_def zero_trade_def generate_signals_def
        dest!: spec[of _ BearSpread])
  have n: "\<not> open_flag (activeTrades demo_state4 3)" "\<not> open_flag (activeTrades demo_state4 4)"
    by (simp_all add: demo_state4_def zero_trade_def)
  have o3: "\<not> open_flag (activeTrades st' 3)"
    using bull_bear_exclusive[of main_config 102 110 0 "draw_for (11 / 10)" 4 demo_state4 st'] t n o4
    by simp
  have s: "alphaBull (generate_signals main_config 102 110 0) = - 1
   \<and> alphaBear (generate_signals main_config 102 110 0) = 1
   \<and> alphaBull (generate_signals main_config 100 100 0) = - 1
   \<and> alphaBear (generate_signals main_config 100 100 0) = - 1"
    using bull_bear_exclusive[of main_config 102 110 0 "draw_for (11 / 10)" 4 demo_state4 st']
      bull_bear_exclusive[of main_config 100 100 0 "draw_for (11 / 10)" 4 demo_state4 st']
    by (simp add: Let_def generate_signals_def)
  show ?thesis using s t o4 o3 by blast
qed

section \<open>The run without drift and volatility\<close>

lemma zero_config_simps:
  "totalTicks zero_config = 10000" "S0 zero_config = 100" "holdPeriod zero_config = 10"
  "delta zero_config = 0.05" "shortWindow zero_config = 5" "longWindow zero_config = 20"
  "volWindow zero_config = 5" "volThresholdHigh zero_config = 0.01"
  "volThresholdLow zero_config = 0.005" "volThresholdHighStrangle zero_config = 0.012"
  "volThresholdLowStrangle zero_config = 0.007"
  by (simp_all add: zero_config_def main_config_def)

lemma gbm_next_zero: "gbm_next zero_config p z = Some p"
  by (simp add: gbm_next_def fsqrt_def zero_config_def main_config_def)

lemma recent_replicate:
  assumes "0 \<le> w" "w - 1 \<le> t" "t < int n"
  shows "recent (replicate n c) t w = replicate (nat w) c"
proof -
  have "nat w \<le> n - nat (t + 1 - w)" using assms by linarith
  then show ?thesis by (simp add: recent_def min_def)
qed

lemma computeMA_replicate:
  assumes "0 \<le> t" "t < int n" "1 \<le> w"
  shows "computeMA (replicate n c) t w = Some c"
proof (cases "t < w - 1")
  case True
  then show ?thesis using assms by (simp add: computeMA_def at_index_def)
next
  case False
  have "arithmetic_mean (replicate (nat w) c) = c"
    using assms by (simp add: arithmetic_mean_def sum_list_replicate)
  then show ?thesis
    using computeMA_window[of t "replicate n c" w] recent_replicate[of w t n c] assms False
    by simp
qed

lemma computeVolatility_replicate:
  assumes "0 \<le> t" "t < int n" "1 \<le> w" "0 < c"
  shows "computeVolatility (replicate n c) t w = Some 0"
proof (cases "t < w")
  case True
  then show ?thesis by (simp add: computeVolatility_def)
next
  case False
  then show ?thesis
    using computeVolatility_identical[of w t "replicate n c" c]
      recent_replicate[of "w + 1" t n c] assms
    by simp
qed

lemma compute_signals_zero:
  assumes "0 \<le> t" "t < int n"
  shows "compute_signals zero_config (replicate n 100) t =
     Some \<lparr>alphaStraddle = - 1, alphaStrangle = - 1, alphaBull = - 1, alphaBear = - 1,
           alphaButterfly = 1\<rparr>"
  using assms
  by (simp add: compute_signals_def zero_config_simps computeMA_replicate
      computeVolatility_replicate generate_signals_def)

lemma tick_zero:
  assumes "prices st = replicate (Suc k) 100"
  shows "\<exists>st'. tick zero_config z (int (Suc k)) st = Some st'
     \<and> prices st' = replicate (Suc (Suc k)) 100
     \<and> compute_signals zero_config (prices st') (int (Suc k)) =
         Some \<lparr>alphaStraddle = - 1, alphaStrangle = - 1, alphaBull = - 1, alphaBear = - 1,
               alphaButterfly = 1\<rparr>"
proof -
  have l: "last (prices st) = 100" using assms by simp
  have p: "prices st @ [100] = replicate (Suc (Suc k)) 100"
    using assms by (simp add: replicate_append_same)
  have c: "compute_signals zero_config (replicate (Suc (Suc k)) 100) (int (Suc k)) =
     Some \<lparr>alphaStraddle = - 1, alphaStrangle = - 1, alphaBull = - 1, alphaBear = - 1,
           alphaButterfly = 1\<rparr>"
    by (rule compute_signals_zero) simp_all
  have ne: "prices st \<noteq> []" using assms by simp
  show ?thesis
    using ne c
    by (simp add: tick_def Let_def l gbm_next_zero p execute_trades_prices del: replicate.simps)
qed

lemma zero_inv_init: "zero_inv 0 (init_state zero_config mem)"
  by (simp add: zero_inv_def init_state_def zero_config_simps)

lemma butterfly_at_entry: "butterflySpreadPayoff 100 95 100 105 = 5"
  by (simp add: butterflySpreadPayoff_def)

lemma zero_inv_step:
  assumes inv: "zero_inv k st"
  shows "\<exists>st'. tick zero_config z (int (Suc k)) st = Some st' \<and> zero_inv (Suc k) st'
     \<and> (\<forall>s. entry_fires zero_config s (int (Suc k)) st st' \<longleftrightarrow>
              s = ButterflySpread \<and> k mod 11 = 0)
     \<and> (\<forall>s. close_fires zero_config s (int (Suc k)) st st' \<longleftrightarrow>
              s = ButterflySpread \<and> k mod 11 = 10)"
proof -
  let ?sg = "\<lparr>alphaStraddle = - 1, alphaStrangle = - 1, alphaBull = - 1, alphaBear = - 1,
           alphaButterfly = 1\<rparr>"
  define t where "t = int (Suc k)"
  have ps: "prices st = replicate (Suc k) 100" using inv by (simp add: zero_inv_def)
  from tick_zero[OF ps, of z] obtain st' where
    tk: "tick zero_config z t st = Some st'"
    and ps': "prices st' = replicate (Suc (Suc k)) 100"
    and sg: "compute_signals zero_config (prices st') t = Some ?sg"
    unfolding t_def by blast
  have last': "last (prices st') = 100" using ps' by simp
  have sl: "(activeTrades st' (slot s), cumulativePnL st' (slot s)) =
            slot_step s 10 0.05 t 100 (signal_of s ?sg)
              (activeTrades st (slot s), cumulativePnL st (slot s))" for s
    using tick_slot[OF tk] sg by (auto simp: zero_config_simps last')
  have others: "\<not> open_flag (activeTrades st' (slot s)) \<and> cumulativePnL st' (slot s) = 0"
    if "s \<noteq> ButterflySpread" for s
  proof -
    have "\<not> open_flag (activeTrades st (slot s)) \<and> cumulativePnL st (slot s) = 0"
      using inv that by (simp add: zero_inv_def)
    moreover have "signal_of s ?sg = - 1" using that by (cases s) simp_all
    ultimately show ?thesis using sl[of s] by (simp add: slot_step_def Let_def)
  qed
  let ?tr = "activeTrades st 5"
  have b: "(activeTrades st' 5, cumulativePnL st' 5) =
            slot_step ButterflySpread 10 0.05 t 100 1 (?tr, cumulativePnL st 5)"
    using sl[of ButterflySpread] by simp
  have op: "open_flag ?tr \<longleftrightarrow> k mod 11 \<noteq> 0"
    and pnl: "cumulativePnL st 5 = 50 * real (k div 11)"
    using inv by (simp_all add: zero_inv_def)
  have rec: "entryTick ?tr = int k - int (k mod 11) + 1 \<and> strike1 ?tr = 95
      \<and> strike2 ?tr = 100 \<and> strike3 ?tr = 105 \<and> volume ?tr = 10" if "open_flag ?tr"
    using inv that by (simp add: zero_inv_def)
  have m11: "k mod 11 < 11" by simp
  have butterfly: "(open_flag (activeTrades st' 5) \<longleftrightarrow> Suc k mod 11 \<noteq> 0)
     \<and> (open_flag (activeTrades st' 5) \<longrightarrow>
           entryTick (activeTrades st' 5) = int (Suc k) - int (Suc k mod 11) + 1
           \<and> strike1 (activeTrades st' 5) = 95 \<and> strike2 (activeTrades st' 5) = 100
           \<and> strike3 (activeTrades st' 5) = 105 \<and> volume (activeTrades st' 5) = 10)
     \<and> cumulativePnL st' 5 = 50 * real (Suc k div 11)"
  proof (cases "k mod 11 = 0")
    case True
    then have no: "\<not> open_flag ?tr" using op by simp
    have m: "Suc k mod 11 = 1" "Suc k div 11 = k div 11"
      using True by (simp_all add: mod_Suc div_Suc)
    show ?thesis
      using b no pnl by (simp add: slot_step_def Let_def m t_def)
  next
    case False
    then have o: "open_flag ?tr" using op by simp
    note r = rec[OF o]
    have held: "t - entryTick ?tr = int (k mod 11)" using r by (simp add: t_def)
    show ?thesis
    proof (cases "k mod 11 = 10")
      case True
      have m: "Suc k mod 11 = 0" "Suc k div 11 = Suc (k div 11)"
        using True by (simp_all add: mod_Suc div_Suc)
      have cl: "t - entryTick ?tr \<ge> 10" using held True by simp
      have "(activeTrades st' 5, cumulativePnL st' 5) =
          (close_trade ButterflySpread t 100 ?tr,
           cumulativePnL st 5 + strategy_payoff ButterflySpread 100 ?tr * of_int (volume ?tr))"
        using b o cl by (simp only: slot_step_def Let_def fst_conv snd_conv) simp
      then show ?thesis
        using r pnl by (simp add: close_trade_def m butterfly_at_entry algebra_simps)
    next
      case F2: False
      have lt: "k mod 11 < 10" using m11 F2 by linarith
      have m: "Suc k mod 11 = Suc (k mod 11)" "Suc k div 11 = k div 11"
        using lt by (simp_all add: mod_Suc div_Suc)
      have ncl: "\<not> t - entryTick ?tr \<ge> 10" using held lt by simp
      have "(activeTrades st' 5, cumulativePnL st' 5) = (?tr, cumulativePnL st 5)"
        using b o ncl by (simp only: slot_step_def Let_def fst_conv snd_conv) simp
      then show ?thesis
        using r o pnl by (simp add: m t_def)
    qed
  qed
  have inv': "zero_inv (Suc k) st'"
    unfolding zero_inv_def using ps' others butterfly by blast
  have ef: "entry_fires zero_config s t st st' \<longleftrightarrow> s = ButterflySpread \<and> k mod 11 = 0" for s
  proof (cases "s = ButterflySpread")
    case True
    then show ?thesis using op by (simp add: entry_fires_def sg)
  next
    case False
    then have "signal_of s ?sg = - 1" by (cases s) simp_all
    then show ?thesis using False by (simp add: entry_fires_def sg)
  qed
  have cf: "close_fires zero_config s t st st' \<longleftrightarrow> s = ButterflySpread \<and> k mod 11 = 10" for s
  proof (cases "s = ButterflySpread")
    case True
    show ?thesis
    proof (cases "open_flag ?tr")
      case o: True
      have held: "t - entryTick ?tr = int (k mod 11)" using rec[OF o] by (simp add: t_def)
      have "(10 \<le> int (k mod 11)) = (k mod 11 = 10)" using m11 by linarith
      then show ?thesis
        using True o held by (simp add: close_fires_def sg zero_config_simps)
    next
      case False
      then have "k mod 11 = 0" using op by simp
      then show ?thesis using True False by (simp add: close_fires_def sg)
    qed
  next
    case False
    then have "\<not> open_flag (activeTrades st (slot s))" using inv by (simp add: zero_inv_def)
    then show ?thesis using False by (simp add: close_fires_def sg)
  qed
  show ?thesis using tk inv' ef cf unfolding t_def by blast
qed

lemma zero_run_inv: "\<exists>sk. state_at zero_config mem Z k = Some sk \<and> zero_inv k sk"
proof (induction k)
  case 0
  show ?case by (simp add: zero_inv_init)
next
  case (Suc k)
  then obtain st where st: "state_at zero_config mem Z k = Some st" "zero_inv k st" by blast
  from zero_inv_step[OF st(2), of "Z (Suc k)"] obtain st' where
    "tick zero_config (Z (Suc k)) (int (Suc k)) st = Some st'" "zero_inv (Suc k) st'"
    by blast
  then show ?case using st(1) by simp
qed

lemma zero_run_events:
  assumes "1 \<le> k"
  shows "(opened_at zero_config mem Z s k \<longleftrightarrow> s = ButterflySpread \<and> k mod 11 = 1)
       \<and> (closed_at zero_config mem Z s k \<longleftrightarrow> s = ButterflySpread \<and> k mod 11 = 0)"
proof -
  obtain j where k: "k = Suc j" using assms by (cases k) simp_all
  obtain st where st: "state_at zero_config mem Z j = Some st" "zero_inv j st"
    using zero_run_inv by blast
  from zero_inv_step[OF st(2), of "Z (Suc j)"] obtain st' where
    t: "tick zero_config (Z (Suc j)) (int (Suc j)) st = Some st'"
    and ef: "entry_fires zero_config s (int (Suc j)) st st' \<longleftrightarrow> s = ButterflySpread \<and> j mod 11 = 0"
    and cf: "close_fires zero_config s (int (Suc j)) st st' \<longleftrightarrow> s = ButterflySpread \<and> j mod 11 = 10"
    by blast
  have s': "state_at zero_config mem Z (Suc j) = Some st'" using st(1) t by simp
  have m: "(Suc j mod 11 = 1) = (j mod 11 = 0)" "(Suc j mod 11 = 0) = (j mod 11 = 10)"
    by (simp_all add: mod_Suc)
  have o: "opened_at zero_config mem Z s (Suc j) = entry_fires zero_config s (int (Suc j)) st st'"
    by (simp only: opened_at_def diff_Suc_1 st(1) s' option.case)
  have c: "closed_at zero_config mem Z s (Suc j) = close_fires zero_config s (int (Suc j)) st st'"
    by (simp only: closed_at_def diff_Suc_1 st(1) s' option.case)
  show ?thesis
    by (simp only: k o c ef cf m)
qed

lemma zero_run_state:
  "\<exists>sk. state_at zero_config mem Z k = Some sk
      \<and> prices sk = replicate (Suc k) 100
      \<and> cumulativePnL sk 1 = 0 \<and> cumulativePnL sk 2 = 0
      \<and> cumulativePnL sk 3 = 0 \<and> cumulativePnL sk 4 = 0
      \<and> cumulativePnL sk 5 = 50 * real (k div 11)
      \<and> totalPnL sk = 50 * real (k div 11)
      \<and> (open_flag (activeTrades sk 5) \<longleftrightarrow> k mod 11 \<noteq> 0)"
proof -
  obtain sk where sk: "state_at zero_config mem Z k = Some sk" "zero_inv k sk"
    using zero_run_inv by blast
  have o: "cumulativePnL sk (slot s) = 0" if "s \<noteq> ButterflySpread" for s
    using sk(2) that by (simp add: zero_inv_def)
  have z: "cumulativePnL sk 1 = 0" "cumulativePnL sk 2 = 0"
    "cumulativePnL sk 3 = 0" "cumulativePnL sk 4 = 0"
    using o[of Straddle] o[of Strangle] o[of BullSpread] o[of BearSpread] by simp_all
  have b: "cumulativePnL sk 5 = 50 * real (k div 11)"
    "prices sk = replicate (Suc k) 100" "open_flag (activeTrades sk 5) \<longleftrightarrow> k mod 11 \<noteq> 0"
    using sk(2) by (simp_all add: zero_inv_def)
  have z1: "cumulativePnL sk (Suc 0) = 0" using z(1) by simp
  have "totalPnL sk = 50 * real (k div 11)"
    by (simp add: totalPnL_def z z1 b(1))
  then show ?thesis using sk(1) z b by blast
qed

lemma zero_run_final:
  "\<exists>st. main_sim zero_config mem Z = Some st
      \<and> prices st = replicate 10000 100
      \<and> cumulativePnL st 1 = 0 \<and> cumulativePnL st 2 = 0
      \<and> cumulativePnL st 3 = 0 \<and> cumulativePnL st 4 = 0
      \<and> cumulativePnL st 5 = 45450 \<and> totalPnL st = 45450
      \<and> \<not> open_flag (activeTrades st 5)"
proof -
  have n: "nat (totalTicks zero_config - 1) = 9999" by (simp add: zero_config_simps)
  have d: "(9999::nat) div 11 = 909" "(9999::nat) mod 11 = 0" "Suc 9999 = 10000" by simp_all
  show ?thesis
    using zero_run_state[of mem Z 9999]
    by (simp only: main_sim_state_at n d) simp
qed

text \<open>
  C2 (as the code has it).  With drift 0 and volatility 0, all other constants as in
  \<^verbatim>\<open>main\<close>, and any stream of draws: the price path is constant at 100 and the realized
  volatility is 0 at every tick.  Straddle and Strangle never enter.  BullSpread and
  BearSpread never enter either, since the two moving averages are equal.  ButterflySpread,
  whose entry condition is volatility below the low threshold, enters at the ticks 1, 12,
  23, ... and is closed by the holding period at the ticks 11, 22, 33, ..., with payoff 5
  times volume 10 at every close, so its total after tick \<open>k\<close> is \<open>50 (k div 11)\<close>.  The
  run of 10000 ticks ends with totals 0, 0, 0, 0 and 45450, and total PnL 45450.
\<close>

theorem zero_drift_run:
  "\<exists>st. main_sim zero_config mem Z = Some st
     \<and> prices st = replicate 10000 100
     \<and> cumulativePnL st 1 = 0 \<and> cumulativePnL st 2 = 0
     \<and> cumulativePnL st 3 = 0 \<and> cumulativePnL st 4 = 0
     \<and> cumulativePnL st 5 = 45450 \<and> totalPnL st = 45450
     \<and> (\<forall>k s. 1 \<le> k \<longrightarrow>
          (opened_at zero_config mem Z s k \<longleftrightarrow> s = ButterflySpread \<and> k mod 11 = 1)
        \<and> (closed_at zero_config mem Z s k \<longleftrightarrow> s = ButterflySpread \<and> k mod 11 = 0))
     \<and> (\<forall>k. \<exists>sk. state_at zero_config mem Z k = Some sk
          \<and> prices sk = replicate (Suc k) 100
          \<and> computeVolatility (prices sk) (int k) (volWindow zero_config) = Some 0
          \<and> cumulativePnL sk 5 = 50 * real (k div 11)
          \<and> totalPnL sk = 50 * real (k div 11))"
proof -
  have v: "\<exists>sk. state_at zero_config mem Z k = Some sk
          \<and> prices sk = replicate (Suc k) 100
          \<and> computeVolatility (prices sk) (int k) (volWindow zero_config) = Some 0
          \<and> cumulativePnL sk 5 = 50 * real (k div 11)
          \<and> totalPnL sk = 50 * real (k div 11)" for k
  proof -
    obtain sk where sk: "state_at zero_config mem Z k = Some sk"
      "prices sk = replicate (Suc k) 100" "cumulativePnL sk 5 = 50 * real (k div 11)"
      "totalPnL sk = 50 * real (k div 11)"
      using zero_run_state[of mem Z k] by blast
    have "computeVolatility (replicate (Suc k) 100) (int k) 5 = Some 0"
      by (rule computeVolatility_replicate) simp_all
    then show ?thesis using sk by (simp add: zero_config_simps)
  qed
  show ?thesis
    using zero_run_final[of mem Z] zero_run_events[of _ mem Z] v by blast
qed

text \<open>The run on \<open>zero_mem\<close> and \<open>zero_draws\<close>: tick 1 opens the butterfly, tick 11 closes it.\<close>

theorem zero_drift_run_witness:
  "(\<exists>st. main_sim zero_config zero_mem zero_draws = Some st \<and> totalPnL st = 45450)
   \<and> opened_at zero_config zero_mem zero_draws ButterflySpread 1
   \<and> closed_at zero_config zero_mem zero_draws ButterflySpread 11
   \<and> \<not> opened_at zero_config zero_mem zero_draws ButterflySpread 11"
proof -
  from zero_drift_run[of zero_mem zero_draws] obtain st where
    a: "main_sim zero_config zero_mem zero_draws = Some st" "totalPnL st = 45450"
    and e: "\<And>k s. 1 \<le> k \<Longrightarrow>
          (opened_at zero_config zero_mem zero_draws s k \<longleftrightarrow> s = ButterflySpread \<and> k mod 11 = 1)
        \<and> (closed_at zero_config zero_mem zero_draws s k \<longleftrightarrow> s = ButterflySpread \<and> k mod 11 = 0)"
    by blast
  show ?thesis
    using a e[of 1 ButterflySpread] e[of 11 ButterflySpread] by simp
qed

text \<open>
  C2 as stated fails on \<open>zero_mem\<close> and \<open>zero_draws\<close>: the total PnL is 45450, not 0;
  ButterflySpread, whose entry depends on a volatility threshold, enters at tick 1;
  BullSpread and BearSpread open no trade in the whole run, so they do not oscillate.
\<close>

theorem zero_drift_counterexample:
  "map_option totalPnL (main_sim zero_config zero_mem zero_draws) = Some 45450
   \<and> opened_at zero_config zero_mem zero_draws ButterflySpread 1
   \<and> num_opens zero_config zero_mem zero_draws BullSpread 9999 = 0
   \<and> num_opens zero_config zero_mem zero_draws BearSpread 9999 = 0"
proof -
  obtain st where a: "main_sim zero_config zero_mem zero_draws = Some st" "totalPnL st = 45450"
    using zero_run_final[of zero_mem zero_draws] by blast
  have b: "opened_at zero_config zero_mem zero_draws ButterflySpread 1"
    using zero_run_events[of 1 zero_mem zero_draws ButterflySpread] by simp
  have n: "num_opens zero_config zero_mem zero_draws s 9999 = 0" if "s \<noteq> ButterflySpread" for s
  proof -
    have "\<not> opened_at zero_config zero_mem zero_draws s k" if "k \<in> set [1 ..< Suc 9999]" for k
      using zero_run_events[of k zero_mem zero_draws s] that \<open>s \<noteq> ButterflySpread\<close> by simp
    then have "filter (opened_at zero_config zero_mem zero_draws s) [1 ..< Suc 9999] = []"
      by (simp only: filter_empty_conv) blast
    then show ?thesis by (simp only: num_opens_def list.size)
  qed
  show ?thesis using a b n[of BullSpread] n[of BearSpread] by simp
qed

section \<open>One open trade per strategy\<close>

text \<open>One tick changes the number of open trades of a strategy by the branch taken.\<close>

lemma tick_balance:
  assumes "tick cfg Z t st = Some st'"
  shows "open_count st' s + (if close_fires cfg s t st st' then 1 else 0) =
         open_count st s + (if entry_fires cfg s t st st' then 1 else 0)"
proof -
  from tick_slot[OF assms] obtain sg where
    sg: "compute_signals cfg (prices st') t = Some sg"
    and sl: "(activeTrades st' (slot s), cumulativePnL st' (slot s)) =
                slot_step s (holdPeriod cfg) (delta cfg) t (last (prices st')) (signal_of s sg)
                  (activeTrades st (slot s), cumulativePnL st (slot s))"
    by blast
  show ?thesis
    using sl
    by (cases s)
      (auto simp: slot_step_def close_trade_def Let_def open_count_def entry_fires_def
        close_fires_def sg split: if_splits)
qed

lemma tick_keeps_open_trade:
  assumes "tick cfg Z t st = Some st'"
    and "open_flag (activeTrades st (slot s))" "open_flag (activeTrades st' (slot s))"
  shows "activeTrades st' (slot s) = activeTrades st (slot s)"
proof -
  from tick_slot[OF assms(1)] obtain sg where
    sl: "(activeTrades st' (slot s), cumulativePnL st' (slot s)) =
                slot_step s (holdPeriod cfg) (delta cfg) t (last (prices st')) (signal_of s sg)
                  (activeTrades st (slot s), cumulativePnL st (slot s))"
    by blast
  show ?thesis
    using sl assms(2,3)
    by (auto simp: slot_step_def close_trade_def Let_def split: if_splits)
qed

lemma state_at_prefix:
  "state_at cfg mem Z n = Some st \<Longrightarrow> k \<le> n \<Longrightarrow> \<exists>sk. state_at cfg mem Z k = Some sk"
proof (induction n arbitrary: st)
  case 0
  then show ?case by simp
next
  case (Suc n)
  show ?case
  proof (cases "k = Suc n")
    case True
    then show ?thesis using Suc.prems by simp
  next
    case False
    then have "k \<le> n" using Suc.prems by simp
    moreover obtain s where "state_at cfg mem Z n = Some s"
      using Suc.prems(1) by (auto split: option.splits)
    ultimately show ?thesis using Suc.IH by blast
  qed
qed

lemma num_opens_Suc:
  "num_opens cfg mem Z s (Suc k) =
     num_opens cfg mem Z s k + (if opened_at cfg mem Z s (Suc k) then 1 else 0)"
  by (simp add: num_opens_def)

lemma num_closes_Suc:
  "num_closes cfg mem Z s (Suc k) =
     num_closes cfg mem Z s k + (if closed_at cfg mem Z s (Suc k) then 1 else 0)"
  by (simp add: num_closes_def)

lemma opens_closes_balance:
  "state_at cfg mem Z k = Some sk \<Longrightarrow>
   num_opens cfg mem Z s k = num_closes cfg mem Z s k + open_count sk s"
proof (induction k arbitrary: sk)
  case 0
  then show ?case
    by (auto simp: num_opens_def num_closes_def open_count_def init_state_def)
next
  case (Suc k)
  then obtain st where st: "state_at cfg mem Z k = Some st"
    and t: "tick cfg (Z (Suc k)) (int (Suc k)) st = Some sk"
    by (auto split: option.splits)
  have ih: "num_opens cfg mem Z s k = num_closes cfg mem Z s k + open_count st s"
    using Suc.IH[OF st] .
  have o: "opened_at cfg mem Z s (Suc k) = entry_fires cfg s (int (Suc k)) st sk"
    using st Suc.prems by (simp add: opened_at_def)
  have c: "closed_at cfg mem Z s (Suc k) = close_fires cfg s (int (Suc k)) st sk"
    using st Suc.prems by (simp add: closed_at_def)
  show ?case
    using tick_balance[OF t, of s] ih
    by (simp only: num_opens_Suc num_closes_Suc o c)
qed

text \<open>
  C7.  Each strategy has one slot, so at most one open trade, at every tick a run reaches:
  the opens so far are the closes so far plus the open trade, if there is one.  Across the
  whole run the number of opens equals the number of closes, or closes + 1 if a trade is
  open after the final tick, and under a valid configuration the run does end.  A tick on
  an open slot never takes the entry branch, and a trade that stays open is unchanged.
\<close>

theorem one_open_trade_per_strategy:
  "(state_at cfg mem Z n = Some st \<and> k \<le> n \<longrightarrow>
      (\<exists>sk. state_at cfg mem Z k = Some sk
         \<and> num_opens cfg mem Z s k = num_closes cfg mem Z s k + open_count sk s
         \<and> open_count sk s \<le> 1))
   \<and> (main_sim cfg mem Z = Some st \<longrightarrow>
        num_opens cfg mem Z s (nat (totalTicks cfg - 1)) =
          num_closes cfg mem Z s (nat (totalTicks cfg - 1))
          + (if open_flag (activeTrades st (slot s)) then 1 else 0))
   \<and> (valid_config cfg \<longrightarrow>
        (\<exists>sf. main_sim cfg mem Z = Some sf
           \<and> num_opens cfg mem Z s (nat (totalTicks cfg - 1)) =
               num_closes cfg mem Z s (nat (totalTicks cfg - 1))
               + (if open_flag (activeTrades sf (slot s)) then 1 else 0)))
   \<and> (tick cfg Zd t st = Some st' \<and> open_flag (activeTrades st (slot s)) \<longrightarrow>
        \<not> entry_fires cfg s t st st'
        \<and> (open_flag (activeTrades st' (slot s)) \<longrightarrow>
             activeTrades st' (slot s) = activeTrades st (slot s)))"
proof (intro conjI impI)
  assume a: "state_at cfg mem Z n = Some st \<and> k \<le> n"
  then obtain sk where sk: "state_at cfg mem Z k = Some sk"
    using state_at_prefix by blast
  have "open_count sk s \<le> 1" by (simp add: open_count_def)
  then show "\<exists>sk. state_at cfg mem Z k = Some sk
         \<and> num_opens cfg mem Z s k = num_closes cfg mem Z s k + open_count sk s
         \<and> open_count sk s \<le> 1"
    using sk opens_closes_balance[OF sk, of s] by blast
next
  assume "main_sim cfg mem Z = Some st"
  then have "state_at cfg mem Z (nat (totalTicks cfg - 1)) = Some st"
    by (simp add: main_sim_state_at)
  from opens_closes_balance[OF this, of s]
  show "num_opens cfg mem Z s (nat (totalTicks cfg - 1)) =
          num_closes cfg mem Z s (nat (totalTicks cfg - 1))
          + (if open_flag (activeTrades st (slot s)) then 1 else 0)"
    by (simp add: open_count_def)
next
  assume "valid_config cfg"
  then obtain sf where sf: "state_at cfg mem Z (nat (totalTicks cfg - 1)) = Some sf"
    using state_at_total[of cfg mem Z "nat (totalTicks cfg - 1)"]
    by (auto simp: valid_config_def)
  from opens_closes_balance[OF sf, of s] sf
  show "\<exists>sf. main_sim cfg mem Z = Some sf
           \<and> num_opens cfg mem Z s (nat (totalTicks cfg - 1)) =
               num_closes cfg mem Z s (nat (totalTicks cfg - 1))
               + (if open_flag (activeTrades sf (slot s)) then 1 else 0)"
    by (simp add: open_count_def main_sim_state_at)
next
  assume a: "tick cfg Zd t st = Some st' \<and> open_flag (activeTrades st (slot s))"
  then show "\<not> entry_fires cfg s t st st'"
    by (simp add: entry_fires_def split: option.splits)
next
  assume a: "tick cfg Zd t st = Some st' \<and> open_flag (activeTrades st (slot s))"
    and b: "open_flag (activeTrades st' (slot s))"
  then show "activeTrades st' (slot s) = activeTrades st (slot s)"
    using tick_keeps_open_trade[of cfg Zd t st st' s] by simp
qed

text \<open>
  The run without drift: one open and no close after tick 1, as many opens as closes after
  the last tick; and the tick on the state with an open straddle.
\<close>

theorem one_open_trade_per_strategy_witness:
  "num_opens zero_config zero_mem zero_draws ButterflySpread 1 =
     num_closes zero_config zero_mem zero_draws ButterflySpread 1 + 1
   \<and> num_opens zero_config zero_mem zero_draws ButterflySpread 9999 =
     num_closes zero_config zero_mem zero_draws ButterflySpread 9999
   \<and> (\<exists>st'. tick main_config (draw_for 1) 1 demo_state = Some st'
          \<and> \<not> entry_fires main_config Straddle 1 demo_state st')"
proof -
  \<comment> \<open>after tick 1 the butterfly trade is open\<close>
  obtain s1 where s1: "state_at zero_config zero_mem zero_draws 1 = Some s1"
    and o1: "open_flag (activeTrades s1 5)"
    using zero_run_state[of zero_mem zero_draws 1] by auto
  have a: "num_opens zero_config zero_mem zero_draws ButterflySpread 1 =
     num_closes zero_config zero_mem zero_draws ButterflySpread 1 + 1"
    using one_open_trade_per_strategy[of zero_config zero_mem zero_draws 1 s1 1 ButterflySpread]
      s1 o1
    by (simp add: open_count_def)
  \<comment> \<open>the whole run ends with the slot flat\<close>
  obtain sf where sf: "main_sim zero_config zero_mem zero_draws = Some sf"
    and nf: "\<not> open_flag (activeTrades sf 5)"
    using zero_run_final[of zero_mem zero_draws] by blast
  have n: "nat (totalTicks zero_config - 1) = 9999" by (simp add: zero_config_simps)
  have b: "num_opens zero_config zero_mem zero_draws ButterflySpread 9999 =
     num_closes zero_config zero_mem zero_draws ButterflySpread 9999"
    using one_open_trade_per_strategy[of zero_config zero_mem zero_draws 0 sf 0 ButterflySpread]
      sf nf
    by (simp add: n)
  \<comment> \<open>an open straddle is not entered again\<close>
  obtain st' where t: "tick main_config (draw_for 1) 1 demo_state = Some st'"
    using tick_demo by blast
  have o: "open_flag (activeTrades demo_state (slot Straddle))"
    by (simp add: demo_state_def zero_trade_def)
  have c: "\<not> entry_fires main_config Straddle 1 demo_state st'"
    using one_open_trade_per_strategy[of main_config zero_mem zero_draws 0 demo_state 0 Straddle
        "draw_for 1" 1 st'] t o
    by simp
  show ?thesis using a b t c by blast
qed

section \<open>Cumulative PnL\<close>

text \<open>The running total of a strategy is untouched unless its closing branch is taken, where
  the payoff times the volume is added.\<close>

lemma pnl_changes_only_at_close:
  assumes "tick cfg Z t st = Some st'" "\<not> close_fires cfg s t st st'"
  shows "cumulativePnL st' (slot s) = cumulativePnL st (slot s)"
proof -
  from tick_slot[OF assms(1)] obtain sg where
    sg: "compute_signals cfg (prices st') t = Some sg"
    and sl: "(activeTrades st' (slot s), cumulativePnL st' (slot s)) =
                slot_step s (holdPeriod cfg) (delta cfg) t (last (prices st')) (signal_of s sg)
                  (activeTrades st (slot s), cumulativePnL st (slot s))"
    by blast
  show ?thesis
    using sl assms(2)
    by (auto simp: slot_step_def Let_def close_fires_def sg split: if_splits)
qed

lemma pnl_added_at_close:
  assumes "tick cfg Z t st = Some st'" "close_fires cfg s t st st'"
  shows "cumulativePnL st' (slot s) =
         cumulativePnL st (slot s)
         + strategy_payoff s (last (prices st')) (activeTrades st (slot s))
           * of_int (volume (activeTrades st (slot s)))"
proof -
  from tick_slot[OF assms(1)] obtain sg where
    sg: "compute_signals cfg (prices st') t = Some sg"
    and sl: "(activeTrades st' (slot s), cumulativePnL st' (slot s)) =
                slot_step s (holdPeriod cfg) (delta cfg) t (last (prices st')) (signal_of s sg)
                  (activeTrades st (slot s), cumulativePnL st (slot s))"
    by blast
  show ?thesis
    using sl assms(2)
    by (auto simp: slot_step_def Let_def close_fires_def sg split: if_splits)
qed

text \<open>At the strikes assigned at entry, from a price \<open>E \<ge> 0\<close> and an offset \<open>d \<ge> 0\<close>, the
  payoffs of the four other strategies are never negative.\<close>

lemma payoffs_nonneg_at_entry_strikes:
  assumes "0 \<le> E" "0 \<le> d"
  shows "0 \<le> straddlePayoff S E"
    and "0 \<le> stranglePayoff S (E * (1 - d)) (E * (1 + d))"
    and "0 \<le> bullSpreadPayoff S (E * (1 - d)) (E * (1 + d))"
    and "0 \<le> butterflySpreadPayoff S (E * (1 - d)) E (E * (1 + d))"
proof -
  define x where "x = E * d"
  have x: "0 \<le> x" using assms by (simp add: x_def)
  have k: "E * (1 - d) = E - x" "E * (1 + d) = E + x"
    by (simp_all add: x_def algebra_simps)
  show "0 \<le> straddlePayoff S E"
    by (simp add: straddlePayoff_def)
  show "0 \<le> stranglePayoff S (E * (1 - d)) (E * (1 + d))"
    by (simp add: stranglePayoff_def)
  show "0 \<le> bullSpreadPayoff S (E * (1 - d)) (E * (1 + d))"
    using x by (simp add: bullSpreadPayoff_def k max_def)
  show "0 \<le> butterflySpreadPayoff S (E * (1 - d)) E (E * (1 + d))"
    using x by (simp add: butterflySpreadPayoff_def k max_def)
qed

text \<open>
  The payoff of the bear spread at its entry strikes is negative exactly when the price is
  above the entry price.  With the short leg as a put, \<open>max (K2 - S) 0\<close>, it would never be.
\<close>

lemma bear_payoff_negative_iff:
  assumes "0 \<le> E" "0 \<le> d"
  shows "bearSpreadPayoff S (E * (1 + d)) (E * (1 - d)) < 0 \<longleftrightarrow> E < S"
proof -
  define x where "x = E * d"
  have x: "0 \<le> x" using assms by (simp add: x_def)
  have k: "E * (1 - d) = E - x" "E * (1 + d) = E + x"
    by (simp_all add: x_def algebra_simps)
  show ?thesis
    using x by (auto simp: bearSpreadPayoff_def k max_def)
qed

lemma put_spread_nonneg: "K2 \<le> K1 \<Longrightarrow> 0 \<le> max (K1 - S) 0 - max (K2 - S) (0::real)"
  by (simp add: max_def)

lemma tick_bear:
  assumes t: "tick main_config z t st = Some st'"
    and a: "computeMA (prices st') t 5 = Some a"
    and b: "computeMA (prices st') t 20 = Some b"
  shows "(activeTrades st' 4, cumulativePnL st' 4) =
         slot_step BearSpread 10 0.05 t (last (prices st')) (if a < b then 1 else - 1)
           (activeTrades st 4, cumulativePnL st 4)"
proof -
  from tick_slot[OF t] obtain sg where
    sg: "compute_signals main_config (prices st') t = Some sg"
    and sl: "(activeTrades st' (slot BearSpread), cumulativePnL st' (slot BearSpread)) =
                slot_step BearSpread (holdPeriod main_config) (delta main_config) t
                  (last (prices st')) (signal_of BearSpread sg)
                  (activeTrades st (slot BearSpread), cumulativePnL st (slot BearSpread))"
    by blast
  from sg have "alphaBear sg = (if a < b then 1 else - 1)"
    by (auto simp: compute_signals_def main_config_simps a b generate_signals_def
        split: option.splits)
  then show ?thesis using sl by (simp add: main_config_simps)
qed

lemma bear_run_4:
  "\<exists>s4. state_at main_config mem bear_draws 4 = Some s4
     \<and> prices s4 = [100, 102, 102, 102, 1017 / 10]
     \<and> cumulativePnL s4 4 = 0
     \<and> open_flag (activeTrades s4 4) \<and> entryTick (activeTrades s4 4) = 4
     \<and> strike1 (activeTrades s4 4) = 21357 / 200 \<and> strike2 (activeTrades s4 4) = 19323 / 200
     \<and> volume (activeTrades s4 4) = 10"
proof -
  let ?s0 = "init_state main_config mem"
  have p0: "prices ?s0 = [100]" and f0: "\<not> open_flag (activeTrades ?s0 4)"
    and c0: "cumulativePnL ?s0 4 = 0"
    by (simp_all add: init_state_def main_config_simps)
  \<comment> \<open>tick 1\<close>
  have d1: "bear_draws 1 = draw_for (51 / 50)" by (simp add: bear_draws_def)
  obtain s1 where t1: "tick main_config (bear_draws 1) 1 ?s0 = Some s1"
    and p1: "prices s1 = [100, 102]"
    using tick_main_draw[of ?s0 1 "bear_draws 1" "51 / 50"] d1
    by (auto simp: p0)
  have m1: "computeMA (prices s1) 1 5 = Some 102" "computeMA (prices s1) 1 20 = Some 102"
    by (simp_all add: p1 computeMA_def at_index_def)
  have f1: "\<not> open_flag (activeTrades s1 4)" and c1: "cumulativePnL s1 4 = 0"
    using tick_bear[OF t1 m1] f0 c0 by (simp_all add: slot_step_def Let_def)
  \<comment> \<open>tick 2\<close>
  have d2: "bear_draws 2 = draw_for 1" by (simp add: bear_draws_def)
  obtain s2 where t2: "tick main_config (bear_draws 2) 2 s1 = Some s2"
    and p2: "prices s2 = [100, 102, 102]"
    using tick_main_draw[of s1 2 "bear_draws 2" 1] d2
    by (auto simp: p1)
  have m2: "computeMA (prices s2) 2 5 = Some 102" "computeMA (prices s2) 2 20 = Some 102"
    by (simp_all add: p2 computeMA_def at_index_def)
  have f2: "\<not> open_flag (activeTrades s2 4)" and c2: "cumulativePnL s2 4 = 0"
    using tick_bear[OF t2 m2] f1 c1 by (simp_all add: slot_step_def Let_def)
  \<comment> \<open>tick 3\<close>
  have d3: "bear_draws 3 = draw_for 1" by (simp add: bear_draws_def)
  obtain s3 where t3: "tick main_config (bear_draws 3) 3 s2 = Some s3"
    and p3: "prices s3 = [100, 102, 102, 102]"
    using tick_main_draw[of s2 3 "bear_draws 3" 1] d3
    by (auto simp: p2)
  have m3: "computeMA (prices s3) 3 5 = Some 102" "computeMA (prices s3) 3 20 = Some 102"
    by (simp_all add: p3 computeMA_def at_index_def)
  have f3: "\<not> open_flag (activeTrades s3 4)" and c3: "cumulativePnL s3 4 = 0"
    using tick_bear[OF t3 m3] f2 c2 by (simp_all add: slot_step_def Let_def)
  \<comment> \<open>tick 4: the short average 101.54 is below the long one 101.7\<close>
  have d4: "bear_draws 4 = draw_for (339 / 340)" by (simp add: bear_draws_def)
  obtain s4 where t4: "tick main_config (bear_draws 4) 4 s3 = Some s4"
    and p4: "prices s4 = [100, 102, 102, 102, 1017 / 10]"
    using tick_main_draw[of s3 4 "bear_draws 4" "339 / 340"] d4
    by (auto simp: p3)
  have m4: "computeMA (prices s4) 4 5 = Some (5077 / 50)"
    "computeMA (prices s4) 4 20 = Some (1017 / 10)"
    using computeMA_window[of 4 "prices s4" 5]
    by (simp_all add: p4 computeMA_def at_index_def recent_def arithmetic_mean_def)
  have e4: "(activeTrades s4 4, cumulativePnL s4 4) =
      (enter_trade BearSpread 0.05 4 (1017 / 10) (activeTrades s3 4), 0)"
    using tick_bear[OF t4 m4] f3 c3 by (simp add: slot_step_def Let_def p4)
  have s: "state_at main_config mem bear_draws 4 = Some s4"
    using t1 t2 t3 t4 by (simp add: eval_nat_numeral)
  show ?thesis
    using s p4 e4 by simp
qed

text \<open>
  C3.  The running total of a strategy changes only when its trade is closed (lemmas
  \<open>pnl_changes_only_at_close\<close> and \<open>pnl_added_at_close\<close>).  It does decrease, though: on
  \<open>bear_draws\<close> the bear spread is entered at tick 4 at 101.7 and closed by its exit signal
  at tick 5 at 101.8, where \<^verbatim>\<open>bearSpreadPayoff\<close> is -0.2, and the total of strategy 4
  goes from 0 to -2.  The leg \<^verbatim>\<open>shortPut\<close> of \<^verbatim>\<open>bearSpreadPayoff\<close> is \<open>max (S - K2) 0\<close>, the
  payoff of a call (lemmas \<open>bear_payoff_negative_iff\<close> and \<open>put_spread_nonneg\<close>).
\<close>

theorem bear_spread_pnl_decreases:
  "\<exists>s4 s5. state_at main_config mem bear_draws 4 = Some s4
     \<and> state_at main_config mem bear_draws 5 = Some s5
     \<and> prices s5 = [100, 102, 102, 102, 1017 / 10, 509 / 5]
     \<and> open_flag (activeTrades s4 4) \<and> \<not> open_flag (activeTrades s5 4)
     \<and> cumulativePnL s4 4 = 0 \<and> cumulativePnL s5 4 = - 2
     \<and> cumulativePnL s5 4 < cumulativePnL s4 4"
proof -
  obtain s4 where s4: "state_at main_config mem bear_draws 4 = Some s4"
    and p4: "prices s4 = [100, 102, 102, 102, 1017 / 10]"
    and c4: "cumulativePnL s4 4 = 0"
    and o4: "open_flag (activeTrades s4 4)"
    and k4: "strike1 (activeTrades s4 4) = 21357 / 200" "strike2 (activeTrades s4 4) = 19323 / 200"
      "volume (activeTrades s4 4) = 10"
    using bear_run_4[of mem] by blast
  have d5: "bear_draws 5 = draw_for (1018 / 1017)" by (simp add: bear_draws_def)
  obtain s5 where t5: "tick main_config (bear_draws 5) 5 s4 = Some s5"
    and p5: "prices s5 = [100, 102, 102, 102, 1017 / 10, 509 / 5]"
    using tick_main_draw[of s4 5 "bear_draws 5" "1018 / 1017"] d5
    by (auto simp: p4)
  have m5: "computeMA (prices s5) 5 5 = Some (1019 / 10)"
    "computeMA (prices s5) 5 20 = Some (509 / 5)"
    using computeMA_window[of 5 "prices s5" 5]
    by (simp_all add: p5 computeMA_def at_index_def recent_def arithmetic_mean_def)
  have e5: "(activeTrades s5 4, cumulativePnL s5 4) =
      (close_trade BearSpread 5 (509 / 5) (activeTrades s4 4),
       cumulativePnL s4 4 + strategy_payoff BearSpread (509 / 5) (activeTrades s4 4)
         * of_int (volume (activeTrades s4 4)))"
    using tick_bear[OF t5 m5] o4 by (simp add: slot_step_def Let_def p5)
  have pay: "strategy_payoff BearSpread (509 / 5) (activeTrades s4 4) = - 1 / 5"
    by (simp add: k4 bearSpreadPayoff_def)
  have s5: "state_at main_config mem bear_draws 5 = Some s5"
    using s4 t5 by (simp add: eval_nat_numeral)
  have "cumulativePnL s5 4 = - 2" "\<not> open_flag (activeTrades s5 4)"
    using e5 pay c4 k4 by (simp_all add: close_trade_def)
  then show ?thesis
    using s4 s5 p5 o4 c4 by simp
qed

end
